theory Spec2Isabelle
  imports Main
begin

section \<open>Domain records (internal/brew/types.go)\<close>

text \<open>
  \<open>PackageType\<close> is a Go string type with the two constants below; a Go \<open>int\<close> is
  modelled as \<open>int\<close> (the counters of a session stay far below \<open>2^63\<close>), a Go
  \<open>*T\<close> that is only read as \<open>T option\<close> (\<open>None\<close> is \<open>nil\<close>), and an \<open>error\<close> by its
  \<open>Error()\<close> text.
\<close>

type_synonym PackageType = string

definition TypeFormula :: PackageType where
  "TypeFormula = ''formula''"

definition TypeCask :: PackageType where
  "TypeCask = ''cask''"

record Package =
  Name :: string
  FullName :: string
  Version :: string
  Description :: string
  Homepage :: string
  Type :: PackageType
  Installed :: bool
  Outdated :: bool
  Pinned :: bool

text \<open>\<open>PackageInfo\<close> embeds \<open>Package\<close>; the install date is never read by the views.\<close>

record PackageInfo = Package +
  Dependencies :: "string list"
  BuildDeps :: "string list"
  Caveats :: string

record OutdatedPackage =
  OutdatedName :: string
  CurrentVersion :: string
  LatestVersion :: string
  OutdatedPinned :: bool

record Tap =
  TapName :: string
  Official :: bool
  Remote :: string

section \<open>The shared state store (package state)\<close>

record State =
  InstalledPackages :: "Package list"
  SearchResults :: "Package list"
  OutdatedPackages :: "OutdatedPackage list"
  Taps :: "Tap list"
  SelectedPackage :: "Package option"
  Loading :: bool
  LoadingMsg :: string
  ErrorMsg :: string
  SuccessMsg :: string
  LastError :: "string option"
  ShowFormulae :: bool
  ShowCasks :: bool
  OnlyOutdated :: bool
  OnlyPinned :: bool
  Favorites :: "string list"
  TotalInstalled :: int
  TotalOutdated :: int

definition NewState :: State where
  "NewState = \<lparr> InstalledPackages = [], SearchResults = [], OutdatedPackages = [],
     Taps = [], SelectedPackage = None, Loading = False, LoadingMsg = [], ErrorMsg = [],
     SuccessMsg = [], LastError = None, ShowFormulae = True, ShowCasks = True,
     OnlyOutdated = False, OnlyPinned = False, Favorites = [],
     TotalInstalled = 0, TotalOutdated = 0 \<rparr>"

definition SetInstalled :: "State \<Rightarrow> Package list \<Rightarrow> State" where
  "SetInstalled s packages =
     s\<lparr>InstalledPackages := packages, TotalInstalled := int (length packages)\<rparr>"

definition SetOutdated :: "State \<Rightarrow> OutdatedPackage list \<Rightarrow> State" where
  "SetOutdated s packages =
     s\<lparr>OutdatedPackages := packages, TotalOutdated := int (length packages)\<rparr>"

text \<open>Every \<open>ErrorMsgView\<close> of the views is built from a non-nil error.\<close>

definition SetError :: "State \<Rightarrow> string \<Rightarrow> State" where
  "SetError s err = s\<lparr>ErrorMsg := err, LastError := Some err\<rparr>"

definition SetSuccess :: "State \<Rightarrow> string \<Rightarrow> State" where
  "SetSuccess s m = s\<lparr>SuccessMsg := m\<rparr>"

definition ClearMessages :: "State \<Rightarrow> State" where
  "ClearMessages s = s\<lparr>ErrorMsg := [], SuccessMsg := []\<rparr>"

text \<open>The body of the loop of \<open>GetFilteredPackages\<close>: does the package pass the filters?\<close>

definition keeps :: "State \<Rightarrow> Package \<Rightarrow> bool" where
  "keeps s pkg =
     (if \<not> ShowFormulae s \<and> Type pkg = TypeFormula then False
      else if \<not> ShowCasks s \<and> Type pkg = TypeCask then False
      else if OnlyOutdated s \<and> \<not> Outdated pkg then False
      else if OnlyPinned s \<and> \<not> Pinned pkg then False
      else True)"

definition GetFilteredPackages :: "State \<Rightarrow> Package list" where
  "GetFilteredPackages s = filter (keeps s) (InstalledPackages s)"

definition GetInstalledCount :: "State \<Rightarrow> int" where
  "GetInstalledCount s = TotalInstalled s"

definition GetOutdatedCount :: "State \<Rightarrow> int" where
  "GetOutdatedCount s = TotalOutdated s"

subsection \<open>Favorites\<close>

text \<open>The loop of \<open>IsFavorite\<close>.\<close>

fun has_fav :: "string list \<Rightarrow> string \<Rightarrow> bool" where
  "has_fav [] name = False"
| "has_fav (fav # favs) name = (if fav = name then True else has_fav favs name)"

definition IsFavorite :: "State \<Rightarrow> string \<Rightarrow> bool" where
  "IsFavorite s name = has_fav (Favorites s) name"

text \<open>
  The loop of \<open>ToggleFavorite\<close> looks for the first index \<open>i\<close> with
  \<open>Favorites[i] == name\<close>, counting from \<open>i\<close>.
\<close>

fun fav_index :: "nat \<Rightarrow> string list \<Rightarrow> string \<Rightarrow> nat option" where
  "fav_index i [] name = None"
| "fav_index i (fav # favs) name = (if fav = name then Some i else fav_index (Suc i) favs name)"

text \<open>
  Found at \<open>i\<close>: \<open>append(Favorites[:i], Favorites[i+1:]...)\<close> and return; not found:
  \<open>append(Favorites, name)\<close>.
\<close>

definition ToggleFavorite :: "State \<Rightarrow> string \<Rightarrow> State" where
  "ToggleFavorite s name =
     (case fav_index 0 (Favorites s) name of
        Some i \<Rightarrow> s\<lparr>Favorites := take i (Favorites s) @ drop (Suc i) (Favorites s)\<rparr>
      | None \<Rightarrow> s\<lparr>Favorites := Favorites s @ [name]\<rparr>)"

section \<open>The log buffer of the dashboard\<close>

text \<open>
  \<open>addLog\<close> on the log slice: append, then keep the last 1000 lines
  (\<open>logs[len(logs)-1000:]\<close>) when there are more.
\<close>

definition addLog_lines :: "string list \<Rightarrow> string \<Rightarrow> string list" where
  "addLog_lines ls m =
     (let ls' = ls @ [m]
      in if length ls' > 1000 then drop (length ls' - 1000) ls' else ls')"

section \<open>Messages and commands\<close>

datatype ViewType =
  ViewHome | ViewInstalled | ViewSearch | ViewDetails | ViewOutdated | ViewTaps | ViewDiagnostics

text \<open>
  The messages (\<open>tea.Msg\<close>) the dashboard and the application model switch on. A key
  message is its \<open>String()\<close> (\<open>key.Matches\<close> compares that string with the keys of the
  binding). The messages of package \<open>app\<close> that share a name with one of package \<open>views\<close>
  carry the prefix \<open>App\<close>.
\<close>

datatype Msg =
    KeyMsg string
  | DialogMsg bool string
  | SpinnerTickMsg
  | DebouncedLoadMsg "Package option" int
  | PackageInfoLoadedMsg "PackageInfo option"
  | SearchResultsMsg "Package list"
  | PackagesLoadedMsg "Package list"
  | OutdatedLoadedMsg "OutdatedPackage list"
  | SuccessMsgView string
  | ErrorMsgView string
  | DoctorOutputMsg "string list"
  | RefreshPackagesMsg
  | WindowSizeMsg int int
  | App_NavigateMsg ViewType
  | BackMsg
  | App_ErrorMsg string
  | App_SuccessMsg string
  | App_PackagesLoadedMsg "Package list"
  | App_OutdatedLoadedMsg "OutdatedPackage list"
  | TapsLoadedMsg "Tap list"
  | OtherMsg

text \<open>
  The commands (\<open>tea.Cmd\<close>) the code returns, by what their closure does when the runtime
  runs it: a call of the Package Manager Client with its arguments, the 200ms timer of the
  debounce, a closure that only returns a message, a command of a library component, or a
  batch. \<open>NoCmd\<close> is \<open>nil\<close>; \<open>Panic\<close> stands for a run-time panic of the Go program.
\<close>

datatype Cmd =
    NoCmd
  | ClientInfo string bool
  | ClientSearch string
  | ClientInstall string bool
  | ClientUninstall string bool
  | ClientUpgrade "string list"
  | ClientDoctor
  | ClientCleanup
  | ClientAutoremove
  | ClientListInstalled
  | ClientOutdated
  | Tick "Package option" int
  | Send Msg
  | SpinnerCmd
  | InputCmd
  | ListCmd
  | OtherViewCmd
  | Quit
  | Panic
  | Batch "Cmd list"

section \<open>Library components\<close>

text \<open>
  The text input and the list of the bubbles library are kept by the fields the dashboard
  reads. What the library computes is a parameter of the model: the \<open>Update\<close> of the text
  input and of the list (the new component, and whether the returned command is non-nil),
  \<open>SetItems\<close> of the list, the test \<open>strings.TrimSpace(line) != ""\<close>, and the floating-point
  expression \<open>int(float64(h) * 0.35)\<close> of the panel heights.
\<close>

record TextInput =
  focus :: bool
  inputValue :: string

record ListModel =
  items :: "Package list"
  index :: int

record Lib =
  input_Update :: "Msg \<Rightarrow> TextInput \<Rightarrow> TextInput \<times> bool"
  list_Update :: "Msg \<Rightarrow> ListModel \<Rightarrow> ListModel \<times> bool"
  list_SetItems :: "ListModel \<Rightarrow> Package list \<Rightarrow> ListModel"
  not_blank :: "string \<Rightarrow> bool"
  scale35 :: "int \<Rightarrow> int"

definition Focus :: "TextInput \<Rightarrow> TextInput" where
  "Focus t = t\<lparr>focus := True\<rparr>"

definition Blur :: "TextInput \<Rightarrow> TextInput" where
  "Blur t = t\<lparr>focus := False\<rparr>"

section \<open>The confirmation dialog (components.Dialog)\<close>

datatype DialogType = DialogConfirm | DialogInfo | DialogError

record Dialog =
  title :: string
  message :: string
  dialogType :: DialogType
  selectedBtn :: int
  buttons :: "string list"
  visible :: bool

definition NewDialog :: "string \<Rightarrow> string \<Rightarrow> DialogType \<Rightarrow> Dialog" where
  "NewDialog t m ty =
     \<lparr> title = t, message = m, dialogType = ty, selectedBtn = 0,
       buttons = (if ty = DialogInfo \<or> ty = DialogError then [''OK''] else [''Confirm'', ''Cancel'']),
       visible = False \<rparr>"

definition NewConfirmDialog :: "string \<Rightarrow> string \<Rightarrow> Dialog" where
  "NewConfirmDialog t m = NewDialog t m DialogConfirm"

definition Show :: "Dialog \<Rightarrow> Dialog" where
  "Show d = d\<lparr>visible := True, selectedBtn := 0\<rparr>"

definition Hide :: "Dialog \<Rightarrow> Dialog" where
  "Hide d = d\<lparr>visible := False\<rparr>"

definition IsVisible :: "Dialog \<Rightarrow> bool" where
  "IsVisible d = visible d"

definition SetMessage :: "Dialog \<Rightarrow> string \<Rightarrow> Dialog" where
  "SetMessage d m = d\<lparr>message := m\<rparr>"

text \<open>
  \<open>Dialog.Update\<close>. The button index is never negative and a dialog of \<open>NewDialog\<close> has
  one or two buttons, so \<open>mod\<close> is Go's \<open>%\<close> here.
\<close>

definition Dialog_Update :: "Dialog \<Rightarrow> Msg \<Rightarrow> Dialog \<times> Cmd" where
  "Dialog_Update d msg =
     (if \<not> visible d then (d, NoCmd)
      else case msg of
        KeyMsg k \<Rightarrow>
          if k = ''left'' \<or> k = ''h'' then
            ((if selectedBtn d > 0 then d\<lparr>selectedBtn := selectedBtn d - 1\<rparr> else d), NoCmd)
          else if k = ''right'' \<or> k = ''l'' then
            ((if selectedBtn d < int (length (buttons d)) - 1
              then d\<lparr>selectedBtn := selectedBtn d + 1\<rparr> else d), NoCmd)
          else if k = ''tab'' then
            (d\<lparr>selectedBtn := (selectedBtn d + 1) mod int (length (buttons d))\<rparr>, NoCmd)
          else if k = ''enter'' then
            (if dialogType d = DialogConfirm
             then (d\<lparr>visible := False\<rparr>, Send (DialogMsg (selectedBtn d = 0) []))
             else (d\<lparr>visible := False\<rparr>, Send (DialogMsg True [])))
          else if k = ''esc'' then (d\<lparr>visible := False\<rparr>, Send (DialogMsg False []))
          else (d, NoCmd)
      | _ \<Rightarrow> (d, NoCmd))"

section \<open>The dashboard view (views.DashboardView)\<close>

datatype PanelType = PanelInstalled | PanelSearch | PanelDependencies

text \<open>
  The field \<open>state\<close> is the store the view points to; the client is not a field of the
  model, its calls are the commands. The spinner has no state that the control flow reads.
\<close>

record DashboardView =
  state :: State
  installedList :: ListModel
  searchInput :: TextInput
  searchResults :: "Package list"
  focusedPanel :: PanelType
  selectedPkg :: "Package option"
  packageInfo :: "PackageInfo option"
  loadingInfo :: bool
  searching :: bool
  installedIndex :: int
  searchIndex :: int
  depIndex :: int
  installedScroll :: int
  searchScroll :: int
  depScroll :: int
  pendingPackage :: "Package option"
  debounceID :: int
  operationInProgress :: bool
  operationMessage :: string
  dialog :: Dialog
  pendingAction :: string
  logs :: "string list"
  logsScroll :: int
  width :: int
  height :: int

text \<open>The UTF-8 bytes of the three symbols of the log lines.\<close>

definition arrow :: string where
  "arrow = [CHR 0xE2, CHR 0x86, CHR 0x92]"

definition check_mark :: string where
  "check_mark = [CHR 0xE2, CHR 0x9C, CHR 0x93]"

definition warning_sign :: string where
  "warning_sign = [CHR 0xE2, CHR 0x9A, CHR 0xA0]"

text \<open>The verb \<open>%d\<close> of \<open>fmt.Sprintf\<close>.\<close>

fun digits :: "nat \<Rightarrow> string" where
  "digits n = (if n < 10 then [char_of (48 + n)] else digits (n div 10) @ [char_of (48 + n mod 10)])"

definition itoa :: "int \<Rightarrow> string" where
  "itoa i = (if i < 0 then CHR ''-'' # digits (nat (- i)) else digits (nat i))"

definition NewDashboardView :: "State \<Rightarrow> DashboardView" where
  "NewDashboardView st =
     \<lparr> state = st,
       installedList = \<lparr> items = [], index = 0 \<rparr>,
       searchInput = \<lparr> focus = False, inputValue = [] \<rparr>,
       searchResults = [], focusedPanel = PanelInstalled, selectedPkg = None,
       packageInfo = None, loadingInfo = False, searching = False,
       installedIndex = 0, searchIndex = 0, depIndex = 0,
       installedScroll = 0, searchScroll = 0, depScroll = 0,
       pendingPackage = None, debounceID = 0,
       operationInProgress = False, operationMessage = [],
       dialog = NewConfirmDialog ''Confirm'' [], pendingAction = [],
       logs = [], logsScroll = 0, width = 0, height = 0 \<rparr>"

definition SetSize :: "DashboardView \<Rightarrow> int \<Rightarrow> int \<Rightarrow> DashboardView" where
  "SetSize v w h = v\<lparr>width := w, height := h\<rparr>"

definition addLog :: "DashboardView \<Rightarrow> string \<Rightarrow> DashboardView" where
  "addLog v m = v\<lparr>logs := addLog_lines (logs v) m\<rparr>"

definition updateInstalledList :: "Lib \<Rightarrow> DashboardView \<Rightarrow> DashboardView" where
  "updateInstalledList L v =
     v\<lparr>installedList := list_SetItems L (installedList v) (GetFilteredPackages (state v))\<rparr>"

definition loadPackageInfo :: "DashboardView \<Rightarrow> Package \<Rightarrow> DashboardView \<times> Cmd" where
  "loadPackageInfo v pkg = (v\<lparr>loadingInfo := True\<rparr>, ClientInfo (Name pkg) (Type pkg = TypeCask))"

definition updateSelectedPackage :: "DashboardView \<Rightarrow> DashboardView" where
  "updateSelectedPackage v =
     (case focusedPanel v of
        PanelInstalled \<Rightarrow>
          (let packages = GetFilteredPackages (state v)
           in if installedIndex v \<ge> 0 \<and> installedIndex v < int (length packages)
              then v\<lparr>selectedPkg := Some (packages ! nat (installedIndex v))\<rparr> else v)
      | PanelSearch \<Rightarrow>
          (if searchIndex v \<ge> 0 \<and> searchIndex v < int (length (searchResults v))
           then v\<lparr>selectedPkg := Some (searchResults v ! nat (searchIndex v))\<rparr> else v)
      | PanelDependencies \<Rightarrow> v)"

definition debouncedLoadPackageInfo :: "DashboardView \<Rightarrow> Package \<Rightarrow> DashboardView \<times> Cmd" where
  "debouncedLoadPackageInfo v pkg =
     (let v' = v\<lparr>debounceID := debounceID v + 1, pendingPackage := Some pkg\<rparr>
      in (v', Tick (Some pkg) (debounceID v')))"

definition loadSelectedPackageInfo :: "DashboardView \<Rightarrow> DashboardView \<times> Cmd" where
  "loadSelectedPackageInfo v =
     (case selectedPkg v of
        Some pkg \<Rightarrow> debouncedLoadPackageInfo v pkg
      | None \<Rightarrow> (v, NoCmd))"

definition performSearch :: "DashboardView \<Rightarrow> string \<Rightarrow> DashboardView \<times> Cmd" where
  "performSearch v query = (v\<lparr>searching := True\<rparr>, ClientSearch query)"

text \<open>
  The seven dispatchers: each sets the operation status, appends the start line to the
  log and returns the call of the client.
\<close>

definition installPackage :: "DashboardView \<Rightarrow> Package \<Rightarrow> DashboardView \<times> Cmd" where
  "installPackage v pkg =
     (addLog (v\<lparr>operationInProgress := True,
                operationMessage := ''Installing '' @ Name pkg @ ''...''\<rparr>)
        (arrow @ '' Installing '' @ Name pkg @ ''...''),
      ClientInstall (Name pkg) (Type pkg = TypeCask))"

definition uninstallPackage :: "DashboardView \<Rightarrow> Package \<Rightarrow> DashboardView \<times> Cmd" where
  "uninstallPackage v pkg =
     (addLog (v\<lparr>operationInProgress := True,
                operationMessage := ''Uninstalling '' @ Name pkg @ ''...''\<rparr>)
        (arrow @ '' Uninstalling '' @ Name pkg @ ''...''),
      ClientUninstall (Name pkg) (Type pkg = TypeCask))"

definition upgradePackage :: "DashboardView \<Rightarrow> string \<Rightarrow> DashboardView \<times> Cmd" where
  "upgradePackage v name =
     (addLog (v\<lparr>operationInProgress := True,
                operationMessage := ''Upgrading '' @ name @ ''...''\<rparr>)
        (arrow @ '' Upgrading '' @ name @ ''...''),
      ClientUpgrade [name])"

definition upgradeAll :: "DashboardView \<Rightarrow> DashboardView \<times> Cmd" where
  "upgradeAll v =
     (addLog (v\<lparr>operationInProgress := True,
                operationMessage := ''Upgrading all packages...''\<rparr>)
        (arrow @ '' Upgrading all packages...''),
      ClientUpgrade [])"

definition refresh :: "DashboardView \<Rightarrow> DashboardView \<times> Cmd" where
  "refresh v =
     (v\<lparr>operationInProgress := True, operationMessage := ''Refreshing packages...''\<rparr>,
      Send RefreshPackagesMsg)"

definition runDoctor :: "DashboardView \<Rightarrow> DashboardView \<times> Cmd" where
  "runDoctor v =
     (addLog (v\<lparr>operationInProgress := True,
                operationMessage := ''Running brew doctor...''\<rparr>)
        (arrow @ '' Running brew doctor...''),
      ClientDoctor)"

definition runCleanup :: "DashboardView \<Rightarrow> DashboardView \<times> Cmd" where
  "runCleanup v =
     (addLog (v\<lparr>operationInProgress := True,
                operationMessage := ''Running brew cleanup...''\<rparr>)
        (arrow @ '' Running brew cleanup...''),
      ClientCleanup)"

definition runAutoremove :: "DashboardView \<Rightarrow> DashboardView \<times> Cmd" where
  "runAutoremove v =
     (addLog (v\<lparr>operationInProgress := True,
                operationMessage := ''Running brew autoremove...''\<rparr>)
        (arrow @ '' Running brew autoremove...''),
      ClientAutoremove)"

definition getInstalledVisibleLines :: "DashboardView \<Rightarrow> int" where
  "getInstalledVisibleLines v =
     (let contentHeight = height v - 1; installedHeight = contentHeight
      in installedHeight - 5)"

definition getSearchVisibleLines :: "Lib \<Rightarrow> DashboardView \<Rightarrow> int" where
  "getSearchVisibleLines L v =
     (let contentHeight = height v - 1; searchHeight = scale35 L contentHeight;
          maxLines = searchHeight - 7
      in if maxLines < 2 then 2 else maxLines)"

definition getDependenciesVisibleLines :: "Lib \<Rightarrow> DashboardView \<Rightarrow> int" where
  "getDependenciesVisibleLines L v =
     (let contentHeight = height v - 1; depTreeHeight = scale35 L contentHeight;
          maxLines = depTreeHeight - 6
      in if maxLines < 1 then 1 else maxLines)"

text \<open>\<open>Init\<close> of the dashboard.\<close>

definition Init :: "Lib \<Rightarrow> DashboardView \<Rightarrow> DashboardView \<times> Cmd" where
  "Init L v =
     (let v1 = addLog (v\<lparr>operationInProgress := True,
                         operationMessage := ''Loading packages...''\<rparr>)
                 (arrow @ '' Loading installed packages...'');
          v2 = (updateInstalledList L v1)\<lparr>installedIndex := 0\<rparr>;
          packages = GetFilteredPackages (state v2)
      in if length packages > 0
         then (let (v3, c) = loadPackageInfo (v2\<lparr>selectedPkg := Some (packages ! 0)\<rparr>) (packages ! 0)
               in (v3, Batch [c, SpinnerCmd]))
         else (v2, SpinnerCmd))"

subsection \<open>The cases of \<open>DashboardView.Update\<close>\<close>

text \<open>
  The resolution of the dialog: a confirmed resolution runs the dispatcher of the pending
  action and returns at once; every other path reaches \<open>v.pendingAction = ""\<close>.
\<close>

definition on_DialogMsg :: "DashboardView \<Rightarrow> bool \<Rightarrow> DashboardView \<times> Cmd" where
  "on_DialogMsg v confirmed =
     (let cleared = (v\<lparr>pendingAction := []\<rparr>, NoCmd)
      in if confirmed then
           (if pendingAction v = ''install'' then
              (case selectedPkg v of Some pkg \<Rightarrow> installPackage v pkg | None \<Rightarrow> cleared)
            else if pendingAction v = ''uninstall'' then
              (case selectedPkg v of Some pkg \<Rightarrow> uninstallPackage v pkg | None \<Rightarrow> cleared)
            else if pendingAction v = ''upgrade'' then
              (case selectedPkg v of Some pkg \<Rightarrow> upgradePackage v (Name pkg) | None \<Rightarrow> cleared)
            else if pendingAction v = ''upgradeAll'' then upgradeAll v
            else if pendingAction v = ''doctor'' then runDoctor v
            else if pendingAction v = ''cleanup'' then runCleanup v
            else if pendingAction v = ''autoremove'' then runAutoremove v
            else cleared)
         else cleared)"

text \<open>A key while the search input has the focus.\<close>

definition key_focused :: "Lib \<Rightarrow> DashboardView \<Rightarrow> string \<Rightarrow> DashboardView \<times> Cmd" where
  "key_focused L v k =
     (if k = ''esc'' then (v\<lparr>searchInput := Blur (searchInput v)\<rparr>, NoCmd)
      else if k = ''enter'' then
        (let query = inputValue (searchInput v)
         in if query \<noteq> [] then performSearch v query else (v, NoCmd))
      else if k = ''tab'' then
        (v\<lparr>searchInput := Blur (searchInput v), focusedPanel := PanelDependencies\<rparr>, NoCmd)
      else
        (let (t, c) = input_Update L (KeyMsg k) (searchInput v)
         in (v\<lparr>searchInput := t\<rparr>, if c then InputCmd else NoCmd)))"

definition key_up :: "DashboardView \<Rightarrow> DashboardView \<times> Cmd" where
  "key_up v =
     (case focusedPanel v of
        PanelInstalled \<Rightarrow>
          if installedIndex v > 0 then
            (let v1 = v\<lparr>installedIndex := installedIndex v - 1\<rparr>;
                 v2 = (if installedIndex v1 < installedScroll v1
                       then v1\<lparr>installedScroll := installedIndex v1\<rparr> else v1)
             in loadSelectedPackageInfo (updateSelectedPackage v2))
          else (v, NoCmd)
      | PanelSearch \<Rightarrow>
          if searchIndex v > 0 then
            (let v1 = v\<lparr>searchIndex := searchIndex v - 1\<rparr>;
                 v2 = (if searchIndex v1 < searchScroll v1
                       then v1\<lparr>searchScroll := searchIndex v1\<rparr> else v1)
             in loadSelectedPackageInfo (updateSelectedPackage v2))
          else (v, NoCmd)
      | PanelDependencies \<Rightarrow>
          ((if depScroll v > 0 then v\<lparr>depScroll := depScroll v - 1\<rparr> else v), NoCmd))"

definition key_down :: "Lib \<Rightarrow> DashboardView \<Rightarrow> DashboardView \<times> Cmd" where
  "key_down L v =
     (case focusedPanel v of
        PanelInstalled \<Rightarrow>
          (let packages = GetFilteredPackages (state v)
           in if installedIndex v < int (length packages) - 1 then
                (let v1 = v\<lparr>installedIndex := installedIndex v + 1\<rparr>;
                     visibleLines = getInstalledVisibleLines v1;
                     v2 = (if installedIndex v1 \<ge> installedScroll v1 + visibleLines
                           then v1\<lparr>installedScroll := installedIndex v1 - visibleLines + 1\<rparr>
                           else v1)
                 in loadSelectedPackageInfo (updateSelectedPackage v2))
              else (v, NoCmd))
      | PanelSearch \<Rightarrow>
          if searchIndex v < int (length (searchResults v)) - 1 then
            (let v1 = v\<lparr>searchIndex := searchIndex v + 1\<rparr>;
                 visibleLines = getSearchVisibleLines L v1;
                 v2 = (if searchIndex v1 \<ge> searchScroll v1 + visibleLines
                       then v1\<lparr>searchScroll := searchIndex v1 - visibleLines + 1\<rparr>
                       else v1)
             in loadSelectedPackageInfo (updateSelectedPackage v2))
          else (v, NoCmd)
      | PanelDependencies \<Rightarrow>
          (case packageInfo v of
             Some info \<Rightarrow>
               (let m = int (length (Dependencies info)) - getDependenciesVisibleLines L v;
                    maxScroll = (if m < 0 then 0 else m)
                in ((if depScroll v < maxScroll then v\<lparr>depScroll := depScroll v + 1\<rparr> else v),
                    NoCmd))
           | None \<Rightarrow> (v, NoCmd)))"

definition key_tab :: "DashboardView \<Rightarrow> DashboardView \<times> Cmd" where
  "key_tab v =
     (let v1 = v\<lparr>searchInput := Blur (searchInput v)\<rparr>
      in case focusedPanel v1 of
           PanelInstalled \<Rightarrow>
             (v1\<lparr>focusedPanel := PanelSearch, searchInput := Focus (searchInput v1)\<rparr>, NoCmd)
         | PanelSearch \<Rightarrow> (v1\<lparr>focusedPanel := PanelDependencies\<rparr>, NoCmd)
         | PanelDependencies \<Rightarrow> (v1\<lparr>focusedPanel := PanelInstalled\<rparr>, NoCmd))"

text \<open>
  The request phase of a mutating action, the same four statements under each binding:
  set the pending action, blur the input, set the prompt, show the dialog.
\<close>

definition requestConfirm :: "DashboardView \<Rightarrow> string \<Rightarrow> string \<Rightarrow> DashboardView" where
  "requestConfirm v action prompt =
     v\<lparr>pendingAction := action, searchInput := Blur (searchInput v),
       dialog := Show (SetMessage (dialog v) prompt)\<rparr>"

text \<open>
  The code after the switch (\<open>Update focused panel\<close>), reached by every message that no
  case returned on. An index of the list outside its items is a panic of the slice access.
\<close>

definition updateFocusedPanel :: "Lib \<Rightarrow> DashboardView \<Rightarrow> Msg \<Rightarrow> DashboardView \<times> Cmd" where
  "updateFocusedPanel L v msg =
     (case focusedPanel v of
        PanelInstalled \<Rightarrow>
          (let oldIdx = index (installedList v);
               (l, c) = list_Update L msg (installedList v);
               v1 = v\<lparr>installedList := l\<rparr>;
               rest = (if c then [ListCmd] else [])
           in if index l \<noteq> oldIdx \<and> length (items l) > 0 then
                (if 0 \<le> index l \<and> index l < int (length (items l)) then
                   (let pkg = items l ! nat (index l);
                        (v2, c2) = loadPackageInfo (v1\<lparr>selectedPkg := Some pkg\<rparr>) pkg
                    in (v2, Batch (c2 # rest)))
                 else (v1, Panic))
              else (v1, Batch rest))
      | _ \<Rightarrow> (v, Batch []))"

text \<open>A key while the search input does not have the focus: the bindings, in their order.\<close>

definition key_bindings :: "Lib \<Rightarrow> DashboardView \<Rightarrow> string \<Rightarrow> DashboardView \<times> Cmd" where
  "key_bindings L v k =
     (if k = ''up'' \<or> k = ''k'' then key_up v
      else if k = ''down'' \<or> k = ''j'' then key_down L v
      else if k = ''tab'' then key_tab v
      else if k = ''enter'' then
        (case selectedPkg v of
           Some pkg \<Rightarrow>
             if focusedPanel v = PanelSearch \<and> length (searchResults v) > 0
                \<and> \<not> focus (searchInput v) \<and> \<not> Installed pkg
             then (requestConfirm v ''install'' (''Install '' @ Name pkg @ ''?''), NoCmd)
             else updateFocusedPanel L v (KeyMsg k)
         | None \<Rightarrow> updateFocusedPanel L v (KeyMsg k))
      else if k = ''u'' then
        (case selectedPkg v of
           Some pkg \<Rightarrow>
             if focusedPanel v = PanelInstalled \<and> Outdated pkg
             then (requestConfirm v ''upgrade'' (''Upgrade '' @ Name pkg @ ''?''), NoCmd)
             else updateFocusedPanel L v (KeyMsg k)
         | None \<Rightarrow> updateFocusedPanel L v (KeyMsg k))
      else if k = ''x'' then
        (case selectedPkg v of
           Some pkg \<Rightarrow>
             if focusedPanel v = PanelInstalled
             then (requestConfirm v ''uninstall'' (''Uninstall '' @ Name pkg @ ''?''), NoCmd)
             else updateFocusedPanel L v (KeyMsg k)
         | None \<Rightarrow> updateFocusedPanel L v (KeyMsg k))
      else if k = ''U'' then
        (if focusedPanel v = PanelInstalled then
           (let outdatedCount = GetOutdatedCount (state v)
            in if outdatedCount > 0
               then (requestConfirm v ''upgradeAll''
                       (''Upgrade all '' @ itoa outdatedCount @ '' outdated packages?''), NoCmd)
               else (v, NoCmd))
         else updateFocusedPanel L v (KeyMsg k))
      else if k = ''r'' then refresh v
      else if k = ''d'' then
        (requestConfirm v ''doctor'' ''Run brew doctor to check for problems?'', NoCmd)
      else if k = ''c'' then
        (requestConfirm v ''cleanup'' ''Run brew cleanup to remove old versions?'', NoCmd)
      else if k = ''a'' then
        (requestConfirm v ''autoremove''
           ''Run brew autoremove to uninstall unused dependencies?'', NoCmd)
      else updateFocusedPanel L v (KeyMsg k))"

definition on_SearchResultsMsg :: "DashboardView \<Rightarrow> Package list \<Rightarrow> DashboardView \<times> Cmd" where
  "on_SearchResultsMsg v results =
     (let v1 = v\<lparr>searchResults := results, searching := False, searchIndex := 0,
                 searchScroll := 0, searchInput := Blur (searchInput v)\<rparr>
      in if length (searchResults v1) > 0
         then loadPackageInfo (v1\<lparr>selectedPkg := Some (searchResults v1 ! 0)\<rparr>)
                (searchResults v1 ! 0)
         else (v1, NoCmd))"

definition on_PackagesLoadedMsg :: "Lib \<Rightarrow> DashboardView \<Rightarrow> DashboardView \<times> Cmd" where
  "on_PackagesLoadedMsg L v =
     (let v1 = (updateInstalledList L v)\<lparr>operationInProgress := False, operationMessage := [],
                 installedIndex := 0, installedScroll := 0\<rparr>;
          packages = GetFilteredPackages (state v1);
          v2 = addLog v1 (check_mark @ '' Loaded '' @ itoa (int (length packages)) @ '' packages'')
      in if length packages > 0
         then loadPackageInfo (v2\<lparr>selectedPkg := Some (packages ! 0)\<rparr>) (packages ! 0)
         else (v2, NoCmd))"

definition on_OutdatedLoadedMsg :: "Lib \<Rightarrow> DashboardView \<Rightarrow> DashboardView \<times> Cmd" where
  "on_OutdatedLoadedMsg L v =
     (let v1 = (updateInstalledList L v)\<lparr>operationInProgress := False, operationMessage := []\<rparr>;
          outdatedCount = int (length (filter Outdated (GetFilteredPackages (state v1))))
      in if outdatedCount > 0
         then (addLog v1 (warning_sign @ '' Found '' @ itoa outdatedCount @ '' outdated packages''),
               NoCmd)
         else (addLog v1 (check_mark @ '' All packages are up to date''), NoCmd))"

definition on_SuccessMsgView :: "DashboardView \<Rightarrow> string \<Rightarrow> DashboardView \<times> Cmd" where
  "on_SuccessMsgView v m =
     (let v1 = addLog (v\<lparr>operationInProgress := False, operationMessage := []\<rparr>)
                 (check_mark @ '' '' @ m)
      in (v1\<lparr>state := SetSuccess (state v1) m\<rparr>, Send RefreshPackagesMsg))"

definition on_ErrorMsgView :: "DashboardView \<Rightarrow> string \<Rightarrow> DashboardView \<times> Cmd" where
  "on_ErrorMsgView v err =
     (let v1 = addLog (v\<lparr>loadingInfo := False, searching := False,
                         operationInProgress := False, operationMessage := []\<rparr>)
                 (''Error: '' @ err)
      in (v1\<lparr>state := SetError (state v1) err\<rparr>, NoCmd))"

definition on_DoctorOutputMsg :: "Lib \<Rightarrow> DashboardView \<Rightarrow> string list \<Rightarrow> DashboardView \<times> Cmd" where
  "on_DoctorOutputMsg L v ls =
     (let v1 = v\<lparr>operationInProgress := False, operationMessage := []\<rparr>;
          v2 = foldl (\<lambda>w line. if not_blank L line then addLog w line else w) v1 ls
      in (addLog v2 (check_mark @ '' Doctor completed''), NoCmd))"

subsection \<open>\<open>DashboardView.Update\<close>\<close>

definition Update :: "Lib \<Rightarrow> DashboardView \<Rightarrow> Msg \<Rightarrow> DashboardView \<times> Cmd" where
  "Update L v msg =
     (if IsVisible (dialog v) then
        (let (d, c) = Dialog_Update (dialog v) msg
         in (v\<lparr>dialog := d\<rparr>, Batch (if c \<noteq> NoCmd then [c] else [])))
      else case msg of
        DialogMsg confirmed a \<Rightarrow> on_DialogMsg v confirmed
      | SpinnerTickMsg \<Rightarrow> (v, SpinnerCmd)
      | KeyMsg k \<Rightarrow>
          if focus (searchInput v) then key_focused L v k else key_bindings L v k
      | DebouncedLoadMsg pkg i \<Rightarrow>
          (case pkg of
             Some p \<Rightarrow> if i = debounceID v then loadPackageInfo v p else (v, NoCmd)
           | None \<Rightarrow> (v, NoCmd))
      | PackageInfoLoadedMsg info \<Rightarrow>
          (v\<lparr>packageInfo := info, loadingInfo := False, depScroll := 0\<rparr>, NoCmd)
      | SearchResultsMsg results \<Rightarrow> on_SearchResultsMsg v results
      | PackagesLoadedMsg packages \<Rightarrow> on_PackagesLoadedMsg L v
      | OutdatedLoadedMsg packages \<Rightarrow> on_OutdatedLoadedMsg L v
      | SuccessMsgView m \<Rightarrow> on_SuccessMsgView v m
      | ErrorMsgView err \<Rightarrow> on_ErrorMsgView v err
      | DoctorOutputMsg ls \<Rightarrow> on_DoctorOutputMsg L v ls
      | _ \<Rightarrow> updateFocusedPanel L v msg)"

text \<open>Running the dashboard on a sequence of messages: the final view.\<close>

fun run :: "Lib \<Rightarrow> DashboardView \<Rightarrow> Msg list \<Rightarrow> DashboardView" where
  "run L v [] = v"
| "run L v (msg # msgs) = run L (fst (Update L v msg)) msgs"

text \<open>
  The same run as the list of its steps: the view before the step, the message, the
  command returned.
\<close>

fun steps :: "Lib \<Rightarrow> DashboardView \<Rightarrow> Msg list \<Rightarrow> (DashboardView \<times> Msg \<times> Cmd) list" where
  "steps L v [] = []"
| "steps L v (msg # msgs) =
     (v, msg, snd (Update L v msg)) # steps L (fst (Update L v msg)) msgs"

text \<open>The commands of a batch, nested batches flattened.\<close>

fun flat :: "Cmd \<Rightarrow> Cmd list" where
  "flat (Batch cs) = concat (map flat cs)"
| "flat c = [c]"

text \<open>
  The seven mutating calls of the client, and the value of \<open>pendingAction\<close> each belongs
  to (\<open>upgradeAll\<close> calls \<open>Upgrade\<close> with no name, \<open>upgradePackage\<close> with one).
\<close>

fun action_of :: "Cmd \<Rightarrow> string option" where
  "action_of (ClientInstall n c) = Some ''install''"
| "action_of (ClientUninstall n c) = Some ''uninstall''"
| "action_of (ClientUpgrade ns) = Some (if ns = [] then ''upgradeAll'' else ''upgrade'')"
| "action_of ClientDoctor = Some ''doctor''"
| "action_of ClientCleanup = Some ''cleanup''"
| "action_of ClientAutoremove = Some ''autoremove''"
| "action_of c = None"

definition mutating :: "Cmd \<Rightarrow> bool" where
  "mutating c = (action_of c \<noteq> None)"

definition mutating_calls :: "Cmd \<Rightarrow> Cmd list" where
  "mutating_calls c = filter mutating (flat c)"

text \<open>A sample of the library parameters, to run the model on concrete inputs.\<close>

definition sampleLib :: Lib where
  "sampleLib =
     \<lparr> input_Update = (\<lambda>msg t. case msg of
          KeyMsg k \<Rightarrow> (if length k = 1 then t\<lparr>inputValue := inputValue t @ k\<rparr> else t, False)
        | _ \<Rightarrow> (t, False)),
       list_Update = (\<lambda>msg l. (l, False)),
       list_SetItems = (\<lambda>l xs. l\<lparr>items := xs, index := 0\<rparr>),
       not_blank = (\<lambda>line. filter (\<lambda>c. c \<noteq> CHR '' '') line \<noteq> []),
       scale35 = (\<lambda>h. (h * 35) div 100) \<rparr>"

section \<open>The application model (app.Model)\<close>

text \<open>
  The model holds the dashboard as its home view; the six other views are not modelled,
  a message forwarded to one of them gives \<open>OtherViewCmd\<close>. The store \<open>m.state\<close> is the
  store the dashboard points to, so it is read and written through \<open>home\<close>.
\<close>

record Model =
  m_dialog :: Dialog
  currentView :: ViewType
  viewStack :: "ViewType list"
  home :: DashboardView
  m_width :: int
  m_height :: int
  ready :: bool

text \<open>\<open>New\<close>, with the loaded configuration flags and favorites as arguments.\<close>

definition New :: "bool \<Rightarrow> bool \<Rightarrow> string list \<Rightarrow> Model" where
  "New showFormulae showCasks favorites =
     \<lparr> m_dialog = NewConfirmDialog [] [], currentView = ViewHome, viewStack = [],
       home = NewDashboardView
                (NewState\<lparr>Favorites := favorites, ShowFormulae := showFormulae,
                           ShowCasks := showCasks\<rparr>),
       m_width = 0, m_height = 0, ready = False \<rparr>"

definition Model_Init :: "Lib \<Rightarrow> Model \<Rightarrow> Model \<times> Cmd" where
  "Model_Init L m =
     (let (v, c) = Init L (home m)
      in (m\<lparr>home := v\<rparr>, Batch [ClientListInstalled, ClientOutdated, SpinnerCmd, c]))"

text \<open>\<open>m.views[m.currentView].Update(msg)\<close>, the view stored back and its command appended.\<close>

definition viewUpdate :: "Lib \<Rightarrow> Model \<Rightarrow> Cmd list \<Rightarrow> Msg \<Rightarrow> Model \<times> Cmd" where
  "viewUpdate L m cmds msg =
     (if currentView m = ViewHome then
        (let (v, c) = Update L (home m) msg
         in (m\<lparr>home := v\<rparr>, Batch (cmds @ (if c \<noteq> NoCmd then [c] else []))))
      else (m, Batch (cmds @ [OtherViewCmd])))"

definition setStore :: "Model \<Rightarrow> State \<Rightarrow> Model" where
  "setStore m st = m\<lparr>home := (home m)\<lparr>state := st\<rparr>\<rparr>"

definition Model_Update :: "Lib \<Rightarrow> Model \<Rightarrow> Msg \<Rightarrow> Model \<times> Cmd" where
  "Model_Update L m msg =
     (if \<not> ready m \<and> msg = SpinnerTickMsg then (m, SpinnerCmd)
      else
        (let wasVisible = IsVisible (m_dialog m);
             (d, dc) = (if wasVisible then Dialog_Update (m_dialog m) msg
                        else (m_dialog m, NoCmd));
             m1 = m\<lparr>m_dialog := d\<rparr>;
             cmds = (if dc \<noteq> NoCmd then [dc] else [])
         in if wasVisible \<and> IsVisible d then (m1, Batch cmds)
            else case msg of
              WindowSizeMsg w h \<Rightarrow>
                (m1\<lparr>m_width := w, m_height := h, home := SetSize (home m1) w h,
                    ready := True\<rparr>, NoCmd)
            | KeyMsg k \<Rightarrow>
                if k = ''ctrl+c'' \<or> k = ''q'' then (m1, Quit)
                else if k = ''esc'' \<and> length (viewStack m1) > 0 then (m1, Send BackMsg)
                else if k = ''?'' then (m1, NoCmd)
                else if k = ''1'' then (m1, Send (App_NavigateMsg ViewHome))
                else if k = ''2'' then (m1, Send (App_NavigateMsg ViewInstalled))
                else if k = ''3'' then (m1, Send (App_NavigateMsg ViewSearch))
                else if k = ''4'' then (m1, Send (App_NavigateMsg ViewOutdated))
                else if k = ''5'' then (m1, Send (App_NavigateMsg ViewTaps))
                else if k = ''6'' then (m1, Send (App_NavigateMsg ViewDiagnostics))
                else viewUpdate L m1 cmds msg
            | App_NavigateMsg vt \<Rightarrow>
                (let m2 = setStore (m1\<lparr>viewStack := viewStack m1 @ [currentView m1],
                                        currentView := vt\<rparr>)
                            (ClearMessages (state (home m1)))
                 in if vt = ViewHome
                    then (let (v, c) = Init L (home m2) in (m2\<lparr>home := v\<rparr>, c))
                    else (m2, OtherViewCmd))
            | BackMsg \<Rightarrow>
                (if length (viewStack m1) > 0
                 then (setStore (m1\<lparr>currentView := last (viewStack m1),
                                      viewStack := butlast (viewStack m1)\<rparr>)
                         (ClearMessages (state (home m1))), NoCmd)
                 else (m1, NoCmd))
            | App_ErrorMsg err \<Rightarrow> (setStore m1 (SetError (state (home m1)) err), NoCmd)
            | App_SuccessMsg s \<Rightarrow> (setStore m1 (SetSuccess (state (home m1)) s), NoCmd)
            | App_PackagesLoadedMsg packages \<Rightarrow>
                viewUpdate L (setStore m1 (SetInstalled (state (home m1)) packages)) cmds
                  (PackagesLoadedMsg packages)
            | App_OutdatedLoadedMsg packages \<Rightarrow>
                viewUpdate L (setStore m1 (SetOutdated (state (home m1)) packages)) cmds
                  (OutdatedLoadedMsg packages)
            | TapsLoadedMsg ts \<Rightarrow> (setStore m1 ((state (home m1))\<lparr>Taps := ts\<rparr>), NoCmd)
            | RefreshPackagesMsg \<Rightarrow> (m1, Batch [ClientListInstalled, ClientOutdated])
            | _ \<Rightarrow> viewUpdate L m1 cmds msg))"

fun Model_run :: "Lib \<Rightarrow> Model \<Rightarrow> Msg list \<Rightarrow> Model" where
  "Model_run L m [] = m"
| "Model_run L m (msg # msgs) = Model_run L (fst (Model_Update L m msg)) msgs"

section \<open>The selection invariant\<close>

text \<open>
  The invariant of the selection of the Installed and of the Search panel, as the
  specification states it, with the visible line counts the navigation uses; the
  Dependencies panel has a scroll offset only.
\<close>

definition selection_ok :: "Lib \<Rightarrow> DashboardView \<Rightarrow> bool" where
  "selection_ok L v =
     ((GetFilteredPackages (state v) \<noteq> [] \<longrightarrow>
         installedIndex v < int (length (GetFilteredPackages (state v))))
      \<and> 0 \<le> installedScroll v \<and> installedScroll v \<le> installedIndex v
      \<and> installedIndex v < installedScroll v + getInstalledVisibleLines v
      \<and> (searchResults v \<noteq> [] \<longrightarrow> searchIndex v < int (length (searchResults v)))
      \<and> 0 \<le> searchScroll v \<and> searchScroll v \<le> searchIndex v
      \<and> searchIndex v < searchScroll v + getSearchVisibleLines L v
      \<and> 0 \<le> depScroll v)"

section \<open>The debounce timers\<close>












section \<open>Sample inputs\<close>

definition dupFavorites :: State where
  "dupFavorites = NewState\<lparr>Favorites := [''git'', ''git'']\<rparr>"

definition twoFavorites :: State where
  "twoFavorites = NewState\<lparr>Favorites := [''git'', ''wget'']\<rparr>"

definition newView :: DashboardView where
  "newView = NewDashboardView NewState"

definition doctorAsked :: DashboardView where
  "doctorAsked = run sampleLib newView [KeyMsg ''d'', KeyMsg ''enter'']"

definition doctorRunning :: DashboardView where
  "doctorRunning = fst (Update sampleLib doctorAsked (DialogMsg True []))"

definition doctorAskedAgain :: DashboardView where
  "doctorAskedAgain = run sampleLib doctorRunning [KeyMsg ''d'', KeyMsg ''enter'']"

definition pk :: "string \<Rightarrow> Package" where
  "pk n = \<lparr> Name = n, FullName = n, Version = ''1.0'', Description = [], Homepage = [],
            Type = TypeFormula, Installed = True, Outdated = False, Pinned = False \<rparr>"

definition info_b :: PackageInfo where
  "info_b = \<lparr> Name = ''b'', FullName = ''b'', Version = ''1.0'', Description = [],
              Homepage = [], Type = TypeFormula, Installed = True, Outdated = False,
              Pinned = False, Dependencies = [''d1'', ''d2'', ''d3'', ''d4''], BuildDeps = [],
              Caveats = [] \<rparr>"

definition threeInstalled :: DashboardView where
  "threeInstalled =
     SetSize (NewDashboardView (SetInstalled NewState [pk ''a'', pk ''b'', pk ''c''])) 80 24"

definition staleView :: DashboardView where
  "staleView = run sampleLib threeInstalled
     [KeyMsg ''down'', DebouncedLoadMsg (Some (pk ''b'')) 1, KeyMsg ''down'']"



definition typing :: Model where
  "typing = Model_run sampleLib (New True True [])
     [WindowSizeMsg 80 24, KeyMsg ''tab'', KeyMsg ''s'']"

definition resized :: Model where
  "resized = Model_run sampleLib (New True True [])
     [WindowSizeMsg 80 9, App_PackagesLoadedMsg [pk ''a'', pk ''b'', pk ''c''],
      KeyMsg ''down'', KeyMsg ''down'', WindowSizeMsg 80 7]"

definition depsScrolled :: DashboardView where
  "depsScrolled = run sampleLib staleView
     [PackageInfoLoadedMsg (Some info_b), KeyMsg ''tab'', KeyMsg ''tab'', KeyMsg ''j'']"


section \<open>Properties\<close>

subsection \<open>Favorites\<close>

lemma has_fav_set: "has_fav favs name = (name \<in> set favs)"
  by (induction favs) auto

lemma fav_index_None: "(fav_index i favs name = None) = (name \<notin> set favs)"
  by (induction favs arbitrary: i) auto

lemma fav_index_Some:
  "fav_index i favs name = Some j \<Longrightarrow>
     i \<le> j \<and> j - i < length favs \<and> favs ! (j - i) = name \<and> name \<notin> set (take (j - i) favs)"
proof (induction favs arbitrary: i)
  case Nil
  then show ?case by simp
next
  case (Cons fav favs)
  show ?case
  proof (cases "fav = name")
    case True
    with Cons.prems show ?thesis by simp
  next
    case False
    with Cons.prems have step: "fav_index (Suc i) favs name = Some j" by simp
    from Cons.IH [OF step] have ih: "Suc i \<le> j" "j - Suc i < length favs"
      "favs ! (j - Suc i) = name" "name \<notin> set (take (j - Suc i) favs)" by auto
    from ih(1) have eq: "j - i = Suc (j - Suc i)" by simp
    show ?thesis using ih False by (simp add: eq)
  qed
qed

lemma set_remove_at_distinct:
  "distinct xs \<Longrightarrow> i < length xs \<Longrightarrow> set (take i xs @ drop (Suc i) xs) = set xs - {xs ! i}"
proof (induction xs arbitrary: i)
  case Nil
  then show ?case by simp
next
  case (Cons x xs)
  show ?case
  proof (cases i)
    case 0
    with Cons.prems show ?thesis by auto
  next
    case (Suc k)
    with Cons.prems have "set (take k xs @ drop (Suc k) xs) = set xs - {xs ! k}"
      using Cons.IH [of k] by simp
    moreover from Cons.prems Suc have "x \<noteq> xs ! k" by auto
    ultimately show ?thesis using Suc by auto
  qed
qed

lemma distinct_remove_at:
  "distinct xs \<Longrightarrow> distinct (take i xs @ drop (Suc i) xs)"
proof (induction xs arbitrary: i)
  case Nil
  then show ?case by simp
next
  case (Cons x xs)
  show ?case
  proof (cases i)
    case 0
    with Cons.prems show ?thesis by simp
  next
    case (Suc k)
    have "set (take k xs) \<subseteq> set xs" "set (drop (Suc k) xs) \<subseteq> set xs"
      by (auto dest: in_set_takeD in_set_dropD)
    with Cons Suc show ?thesis by auto
  qed
qed

lemma Favorites_ToggleFavorite_distinct:
  assumes "distinct (Favorites s)"
  shows "set (Favorites (ToggleFavorite s name)) =
           (if name \<in> set (Favorites s) then set (Favorites s) - {name}
            else insert name (set (Favorites s)))"
    and "distinct (Favorites (ToggleFavorite s name))"
proof -
  show "set (Favorites (ToggleFavorite s name)) =
           (if name \<in> set (Favorites s) then set (Favorites s) - {name}
            else insert name (set (Favorites s)))"
  proof (cases "fav_index 0 (Favorites s) name")
    case None
    then have "name \<notin> set (Favorites s)" by (simp add: fav_index_None)
    with None show ?thesis by (simp add: ToggleFavorite_def)
  next
    case (Some j)
    from fav_index_Some [OF Some] have j: "j < length (Favorites s)" "Favorites s ! j = name"
      by auto
    then have "name \<in> set (Favorites s)" by (metis nth_mem)
    then show ?thesis
      using Some j set_remove_at_distinct [OF assms j(1)] by (simp add: ToggleFavorite_def)
  qed
  show "distinct (Favorites (ToggleFavorite s name))"
  proof (cases "fav_index 0 (Favorites s) name")
    case None
    then have "name \<notin> set (Favorites s)" by (simp add: fav_index_None)
    with None assms show ?thesis by (simp add: ToggleFavorite_def)
  next
    case (Some j)
    then show ?thesis using distinct_remove_at [OF assms] by (simp add: ToggleFavorite_def)
  qed
qed

lemma IsFavorite_other:
  "other \<noteq> name \<Longrightarrow> IsFavorite (ToggleFavorite s name) other = IsFavorite s other"
proof (cases "fav_index 0 (Favorites s) name")
  case None
  assume "other \<noteq> name"
  with None show ?thesis by (simp add: ToggleFavorite_def IsFavorite_def has_fav_set)
next
  case (Some j)
  assume neq: "other \<noteq> name"
  from fav_index_Some [OF Some] have j: "j < length (Favorites s)" "Favorites s ! j = name"
    by auto
  have "Favorites s = take j (Favorites s) @ name # drop (Suc j) (Favorites s)"
    using j by (metis id_take_nth_drop)
  then have "set (Favorites s) =
      set (take j (Favorites s)) \<union> {name} \<union> set (drop (Suc j) (Favorites s))"
    by (metis list.simps(15) set_append Un_assoc insert_is_Un)
  with neq Some show ?thesis
    by (auto simp: ToggleFavorite_def IsFavorite_def has_fav_set)
qed

text \<open>
  C10, as the code has it. \<open>ToggleFavorite\<close> removes the first occurrence of the name only,
  so the claim holds for the favorites lists without duplicates, which are the lists
  \<open>ToggleFavorite\<close> produces from the empty list of \<open>NewState\<close>: on such a list
  \<open>ToggleFavorite(n)\<close> flips \<open>IsFavorite(n)\<close>, leaves the membership of every other name
  unchanged, restores every membership when applied twice, and gives a list without
  duplicates again.
\<close>

theorem ToggleFavorite_distinct:
  assumes "distinct (Favorites s)"
  shows "IsFavorite (ToggleFavorite s name) name = (\<not> IsFavorite s name)
       \<and> (\<forall>other. other \<noteq> name \<longrightarrow>
            IsFavorite (ToggleFavorite s name) other = IsFavorite s other)
       \<and> (\<forall>n. IsFavorite (ToggleFavorite (ToggleFavorite s name) name) n = IsFavorite s n)
       \<and> distinct (Favorites (ToggleFavorite s name))"
proof -
  note one = Favorites_ToggleFavorite_distinct [OF assms, of name]
  note two = Favorites_ToggleFavorite_distinct [OF one(2), of name]
  have a: "IsFavorite (ToggleFavorite s name) name = (\<not> IsFavorite s name)"
    using one(1) by (simp add: IsFavorite_def has_fav_set)
  have b: "\<forall>other. other \<noteq> name \<longrightarrow>
            IsFavorite (ToggleFavorite s name) other = IsFavorite s other"
    by (simp add: IsFavorite_other)
  have c: "\<forall>n. IsFavorite (ToggleFavorite (ToggleFavorite s name) name) n = IsFavorite s n"
    using one(1) two(1) by (auto simp: IsFavorite_def has_fav_set)
  from a b c one(2) show ?thesis by blast
qed

text \<open>
  The theorem at the favorites \<open>git, wget\<close>: toggling \<open>git\<close> removes it, keeps \<open>wget\<close>,
  and toggling it again brings it back.
\<close>

theorem ToggleFavorite_distinct_witness:
  "distinct (Favorites twoFavorites)
   \<and> IsFavorite twoFavorites ''git''
   \<and> \<not> IsFavorite (ToggleFavorite twoFavorites ''git'') ''git''
   \<and> IsFavorite (ToggleFavorite twoFavorites ''git'') ''wget''
   \<and> IsFavorite (ToggleFavorite (ToggleFavorite twoFavorites ''git'') ''git'') ''git''"
proof -
  have d: "distinct (Favorites twoFavorites)"
    by (simp add: twoFavorites_def NewState_def)
  have g: "IsFavorite twoFavorites ''git''" "IsFavorite twoFavorites ''wget''"
    by (simp_all add: twoFavorites_def NewState_def IsFavorite_def)
  from ToggleFavorite_distinct [OF d, of "''git''"] d g show ?thesis by simp
qed

text \<open>
  C10 as stated fails on a favorites list that holds a name twice (the favorites file is
  read as it is): \<open>git\<close> is a favorite before and after one \<open>ToggleFavorite\<close>, and two
  calls do not restore the membership.
\<close>

theorem ToggleFavorite_duplicate_counterexample:
  "IsFavorite dupFavorites ''git''
   \<and> IsFavorite (ToggleFavorite dupFavorites ''git'') ''git''
   \<and> \<not> IsFavorite (ToggleFavorite (ToggleFavorite dupFavorites ''git'') ''git'') ''git''"
  by (simp add: dupFavorites_def NewState_def ToggleFavorite_def IsFavorite_def)

subsection \<open>The log buffer\<close>

lemma addLog_lines_drop:
  "addLog_lines (drop (length ms - 1000) ms) m = drop (length (ms @ [m]) - 1000) (ms @ [m])"
proof (cases "length ms < 1000")
  case True
  then show ?thesis by (simp add: addLog_lines_def Let_def)
next
  case False
  then have "Suc (length ms) - 1000 = Suc (length ms - 1000)" by simp
  with False show ?thesis by (simp add: addLog_lines_def Let_def)
qed

lemma foldl_addLog_lines: "foldl addLog_lines [] ms = drop (length ms - 1000) ms"
proof (induction ms rule: rev_induct)
  case Nil
  then show ?case by simp
next
  case (snoc m ms)
  then show ?case using addLog_lines_drop [of ms m] by simp
qed

lemma logs_foldl_addLog: "logs (foldl addLog v ms) = foldl addLog_lines (logs v) ms"
  by (induction ms arbitrary: v) (simp_all add: addLog_def)

text \<open>
  C7. After any sequence \<open>ms\<close> of appends to the log of a new dashboard, the log is the
  last 1000 entries of \<open>ms\<close> in their order (all of \<open>ms\<close> while there are at most 1000),
  so it never holds more than 1000 entries and the oldest entries are the ones dropped:
  after 1001 appends the log is \<open>drop 1 ms\<close>, the first entry gone and the second the
  oldest.
\<close>

theorem addLog_ring_buffer:
  "logs (foldl addLog (NewDashboardView st) ms) = drop (length ms - 1000) ms
   \<and> length (logs (foldl addLog (NewDashboardView st) ms)) \<le> 1000"
proof -
  have "logs (NewDashboardView st) = []" by (simp add: NewDashboardView_def)
  then have eq: "logs (foldl addLog (NewDashboardView st) ms) = drop (length ms - 1000) ms"
    by (simp add: logs_foldl_addLog foldl_addLog_lines)
  then show ?thesis by simp
qed

subsection \<open>Confirmation-gated dispatch\<close>

lemma mc_simps [simp]:
  "mutating_calls NoCmd = []" "mutating_calls (Send m) = []" "mutating_calls (Tick p i) = []"
  "mutating_calls (ClientInfo n b) = []" "mutating_calls (ClientSearch q) = []"
  "mutating_calls SpinnerCmd = []" "mutating_calls InputCmd = []" "mutating_calls ListCmd = []"
  "mutating_calls Panic = []" "mutating_calls (Batch []) = []"
  "mutating_calls (Batch (c # cs)) = mutating_calls c @ mutating_calls (Batch cs)"
  by (simp_all add: mutating_calls_def mutating_def)

lemma mc_Dialog_Update: "mutating_calls (snd (Dialog_Update d msg)) = []"
  by (simp add: Dialog_Update_def split: Msg.splits)

lemma mc_loadPackageInfo: "mutating_calls (snd (loadPackageInfo v p)) = []"
  by (simp add: loadPackageInfo_def)

lemma mc_loadSelectedPackageInfo: "mutating_calls (snd (loadSelectedPackageInfo v)) = []"
  by (simp add: loadSelectedPackageInfo_def debouncedLoadPackageInfo_def Let_def split: option.splits)

lemma mc_key_up: "mutating_calls (snd (key_up v)) = []"
  by (simp add: key_up_def Let_def mc_loadSelectedPackageInfo split: PanelType.splits)

lemma mc_key_down: "mutating_calls (snd (key_down L v)) = []"
  by (simp add: key_down_def Let_def mc_loadSelectedPackageInfo split: PanelType.splits option.splits)

lemma mc_key_tab: "mutating_calls (snd (key_tab v)) = []"
  by (simp add: key_tab_def Let_def split: PanelType.splits)

lemma mc_updateFocusedPanel: "mutating_calls (snd (updateFocusedPanel L v msg)) = []"
  by (simp add: updateFocusedPanel_def Let_def loadPackageInfo_def split: PanelType.splits prod.splits)

lemma mc_key_focused: "mutating_calls (snd (key_focused L v k)) = []"
  by (simp add: key_focused_def Let_def performSearch_def split: prod.splits)

lemma mc_key_bindings: "mutating_calls (snd (key_bindings L v k)) = []"
  by (simp add: key_bindings_def Let_def mc_key_up mc_key_down mc_key_tab mc_updateFocusedPanel
      refresh_def split: option.splits)

lemma mc_Update_dialog:
  "IsVisible (dialog v) \<Longrightarrow> mutating_calls (snd (Update L v msg)) = []"
  using mc_Dialog_Update [of "dialog v" msg]
  by (cases "Dialog_Update (dialog v) msg") (simp add: Update_def)

lemma mc_on_DialogMsg:
  "c \<in> set (mutating_calls (snd (on_DialogMsg v b))) \<Longrightarrow>
     b \<and> action_of c = Some (pendingAction v)"
  by (auto simp: on_DialogMsg_def Let_def installPackage_def uninstallPackage_def
      upgradePackage_def upgradeAll_def runDoctor_def runCleanup_def runAutoremove_def
      mutating_calls_def mutating_def addLog_def split: if_splits option.splits)

lemma mc_others:
  "mutating_calls (snd (on_SearchResultsMsg v rs)) = []"
  "mutating_calls (snd (on_PackagesLoadedMsg L v)) = []"
  "mutating_calls (snd (on_OutdatedLoadedMsg L v)) = []"
  "mutating_calls (snd (on_SuccessMsgView v m)) = []"
  "mutating_calls (snd (on_ErrorMsgView v e)) = []"
  "mutating_calls (snd (on_DoctorOutputMsg L v ls)) = []"
  by (simp_all add: on_SearchResultsMsg_def on_PackagesLoadedMsg_def on_OutdatedLoadedMsg_def
      on_SuccessMsgView_def on_ErrorMsgView_def on_DoctorOutputMsg_def Let_def loadPackageInfo_def)

lemma mc_Update:
  assumes "c \<in> set (mutating_calls (snd (Update L v msg)))"
  shows "(\<exists>a. msg = DialogMsg True a) \<and> \<not> IsVisible (dialog v)
         \<and> action_of c = Some (pendingAction v)"
proof (cases "IsVisible (dialog v)")
  case True
  with assms show ?thesis by (simp add: mc_Update_dialog)
next
  case False
  show ?thesis
  proof (cases msg)
    case (DialogMsg b a)
    with assms False have "c \<in> set (mutating_calls (snd (on_DialogMsg v b)))"
      by (simp add: Update_def)
    from mc_on_DialogMsg [OF this] DialogMsg False show ?thesis by simp
  qed (use assms False in \<open>simp_all add: Update_def mc_key_focused mc_key_bindings mc_others
        mc_updateFocusedPanel mc_loadPackageInfo split: option.splits if_splits\<close>)
qed

lemma steps_mem:
  "(v', msg, cmd) \<in> set (steps L v msgs) \<Longrightarrow> cmd = snd (Update L v' msg)"
  by (induction msgs arbitrary: v) auto

lemma steps_append:
  "steps L v (xs @ ys) = steps L v xs @ steps L (run L v xs) ys"
  by (induction xs arbitrary: v) auto

text \<open>
  C1. In every run of the dashboard, a step whose command contains a mutating call of the
  client (install, uninstall, upgrade one, upgrade all, doctor, cleanup, autoremove) is
  the processing of a dialog resolution with \<open>Confirmed = true\<close>, while no dialog is
  visible and the pending action is the action of that call. No other message, and no
  resolution with \<open>Confirmed = false\<close>, dispatches a mutating call.
\<close>

theorem mutating_call_needs_confirmation:
  assumes "(v', msg, cmd) \<in> set (steps L v msgs)" and "c \<in> set (mutating_calls cmd)"
  shows "(\<exists>a. msg = DialogMsg True a) \<and> \<not> IsVisible (dialog v')
         \<and> action_of c = Some (pendingAction v')"
proof -
  from steps_mem [OF assms(1)] assms(2)
  have "c \<in> set (mutating_calls (snd (Update L v' msg)))" by simp
  then show ?thesis by (rule mc_Update)
qed

lemma doctorAsked_eval:
  "doctorAsked = newView\<lparr>pendingAction := ''doctor'',
     dialog := (dialog newView)\<lparr>message := ''Run brew doctor to check for problems?''\<rparr>\<rparr>"
  by (simp add: doctorAsked_def newView_def NewDashboardView_def NewState_def Update_def
      IsVisible_def NewConfirmDialog_def NewDialog_def key_bindings_def requestConfirm_def
      Show_def SetMessage_def Blur_def Dialog_Update_def)

text \<open>
  The theorem at the run \<open>d\<close>, \<open>enter\<close>, confirmed resolution of a new dashboard: the third
  step dispatches \<open>Doctor\<close>, with \<open>doctor\<close> pending.
\<close>

theorem mutating_call_needs_confirmation_witness:
  "(doctorAsked, DialogMsg True [], ClientDoctor)
     \<in> set (steps sampleLib newView [KeyMsg ''d'', KeyMsg ''enter'', DialogMsg True []])
   \<and> ClientDoctor \<in> set (mutating_calls ClientDoctor)
   \<and> \<not> IsVisible (dialog doctorAsked)
   \<and> action_of ClientDoctor = Some (pendingAction doctorAsked)"
proof -
  have upd: "snd (Update sampleLib doctorAsked (DialogMsg True [])) = ClientDoctor"
    by (simp add: doctorAsked_eval newView_def NewDashboardView_def Update_def IsVisible_def
        NewConfirmDialog_def NewDialog_def on_DialogMsg_def runDoctor_def)
  have r: "run sampleLib newView [KeyMsg ''d'', KeyMsg ''enter''] = doctorAsked"
    by (simp only: doctorAsked_def)
  have "steps sampleLib newView ([KeyMsg ''d'', KeyMsg ''enter''] @ [DialogMsg True []])
        = steps sampleLib newView [KeyMsg ''d'', KeyMsg ''enter'']
          @ steps sampleLib doctorAsked [DialogMsg True []]"
    by (simp only: steps_append r)
  moreover have "steps sampleLib doctorAsked [DialogMsg True []]
        = [(doctorAsked, DialogMsg True [], ClientDoctor)]"
    by (simp add: upd)
  ultimately have mem: "(doctorAsked, DialogMsg True [], ClientDoctor)
     \<in> set (steps sampleLib newView [KeyMsg ''d'', KeyMsg ''enter'', DialogMsg True []])"
    by simp
  have mc: "ClientDoctor \<in> set (mutating_calls ClientDoctor)"
    by (simp add: mutating_calls_def mutating_def)
  from mutating_call_needs_confirmation [OF mem mc] mem mc show ?thesis by blast
qed

subsection \<open>Resolution of the dialog and the operation status\<close>

lemmas eval_defs = newView_def NewDashboardView_def NewState_def Update_def
  IsVisible_def NewConfirmDialog_def NewDialog_def key_bindings_def requestConfirm_def
  Show_def SetMessage_def Blur_def Dialog_Update_def on_DialogMsg_def runDoctor_def
  addLog_def addLog_lines_def

lemma doctorRunning_eval:
  "doctorRunning = doctorAsked\<lparr>operationInProgress := True,
     operationMessage := ''Running brew doctor...'',
     logs := [arrow @ '' Running brew doctor...'']\<rparr>"
  by (simp add: doctorRunning_def doctorAsked_eval eval_defs)

lemma doctorAskedAgain_eval: "doctorAskedAgain = doctorRunning"
  by (simp add: doctorAskedAgain_def doctorRunning_eval doctorAsked_eval eval_defs)

text \<open>
  C3, on the code. A resolution with \<open>Confirmed = true\<close> whose pending action is
  dispatched returns before \<open>v.pendingAction = ""\<close>: after the confirmed \<open>doctor\<close> the
  pending action is still \<open>doctor\<close>, and a further confirmed resolution dispatches
  \<open>Doctor\<close> again. (A cancelled resolution does clear it, see
  \<open>pendingAction_cleared_on_cancel\<close>.)
\<close>

theorem pendingAction_kept_after_confirm:
  "pendingAction doctorAsked = ''doctor''
   \<and> Update sampleLib doctorAsked (DialogMsg True []) = (doctorRunning, ClientDoctor)
   \<and> pendingAction doctorRunning = ''doctor''
   \<and> snd (Update sampleLib doctorRunning (DialogMsg True [])) = ClientDoctor"
  by (simp add: doctorRunning_eval doctorAsked_eval eval_defs)

lemma pendingAction_cleared_on_cancel:
  "\<not> IsVisible (dialog v) \<Longrightarrow> Update L v (DialogMsg False a) = (v\<lparr>pendingAction := []\<rparr>, NoCmd)"
  by (simp add: Update_def on_DialogMsg_def)

text \<open>
  C5 as stated fails: while the confirmed \<open>doctor\<close> is in progress, the keys \<open>d\<close> and
  \<open>enter\<close> resolve a second dialog, and its resolution dispatches \<open>Doctor\<close> a second time
  with the operation status still in progress.
\<close>

theorem duplicate_dispatch_counterexample:
  "operationInProgress doctorRunning
   \<and> snd (Update sampleLib doctorAsked (DialogMsg True [])) = ClientDoctor
   \<and> snd (Update sampleLib (fst (Update sampleLib doctorRunning (KeyMsg ''d''))) (KeyMsg ''enter''))
       = Batch [Send (DialogMsg True [])]
   \<and> operationInProgress doctorAskedAgain
   \<and> snd (Update sampleLib doctorAskedAgain (DialogMsg True [])) = ClientDoctor"
  by (simp add: doctorAskedAgain_eval doctorRunning_eval doctorAsked_eval eval_defs)

lemma oip_loadSelected:
  "snd (loadSelectedPackageInfo (v\<lparr>operationInProgress := b\<rparr>)) = snd (loadSelectedPackageInfo v)"
  by (simp add: loadSelectedPackageInfo_def debouncedLoadPackageInfo_def Let_def
      split: option.splits)

lemma oip_key_up: "snd (key_up (v\<lparr>operationInProgress := b\<rparr>)) = snd (key_up v)"
  by (simp add: key_up_def Let_def updateSelectedPackage_def loadSelectedPackageInfo_def
      debouncedLoadPackageInfo_def split: PanelType.splits option.splits)

lemma oip_key_down: "snd (key_down L (v\<lparr>operationInProgress := b\<rparr>)) = snd (key_down L v)"
  by (simp add: key_down_def Let_def updateSelectedPackage_def loadSelectedPackageInfo_def
      debouncedLoadPackageInfo_def getInstalledVisibleLines_def getSearchVisibleLines_def
      getDependenciesVisibleLines_def split: PanelType.splits option.splits)

lemma oip_key_tab: "snd (key_tab (v\<lparr>operationInProgress := b\<rparr>)) = snd (key_tab v)"
  by (simp add: key_tab_def Let_def split: PanelType.splits)

lemma oip_updateFocusedPanel:
  "snd (updateFocusedPanel L (v\<lparr>operationInProgress := b\<rparr>) msg) = snd (updateFocusedPanel L v msg)"
  by (cases "list_Update L msg (installedList v)")
    (simp add: updateFocusedPanel_def Let_def loadPackageInfo_def split: PanelType.splits)

lemma oip_key_focused:
  "snd (key_focused L (v\<lparr>operationInProgress := b\<rparr>) k) = snd (key_focused L v k)"
  by (simp add: key_focused_def Let_def performSearch_def split: prod.splits)

lemma oip_key_bindings:
  "snd (key_bindings L (v\<lparr>operationInProgress := b\<rparr>) k) = snd (key_bindings L v k)"
  by (simp add: key_bindings_def Let_def oip_key_up oip_key_down oip_key_tab
      oip_updateFocusedPanel refresh_def split: option.splits)

lemma oip_on_DialogMsg:
  "snd (on_DialogMsg (v\<lparr>operationInProgress := b\<rparr>) c) = snd (on_DialogMsg v c)"
  by (simp add: on_DialogMsg_def Let_def installPackage_def uninstallPackage_def
      upgradePackage_def upgradeAll_def runDoctor_def runCleanup_def runAutoremove_def
      split: option.splits)

lemma oip_others:
  "snd (on_SearchResultsMsg (v\<lparr>operationInProgress := b\<rparr>) rs) = snd (on_SearchResultsMsg v rs)"
  "snd (on_PackagesLoadedMsg L (v\<lparr>operationInProgress := b\<rparr>)) = snd (on_PackagesLoadedMsg L v)"
  "snd (on_OutdatedLoadedMsg L (v\<lparr>operationInProgress := b\<rparr>)) = snd (on_OutdatedLoadedMsg L v)"
  "snd (on_SuccessMsgView (v\<lparr>operationInProgress := b\<rparr>) m) = snd (on_SuccessMsgView v m)"
  "snd (on_ErrorMsgView (v\<lparr>operationInProgress := b\<rparr>) e) = snd (on_ErrorMsgView v e)"
  "snd (on_DoctorOutputMsg L (v\<lparr>operationInProgress := b\<rparr>) ls) = snd (on_DoctorOutputMsg L v ls)"
  by (simp_all add: on_SearchResultsMsg_def on_PackagesLoadedMsg_def on_OutdatedLoadedMsg_def
      on_SuccessMsgView_def on_ErrorMsgView_def on_DoctorOutputMsg_def Let_def loadPackageInfo_def
      updateInstalledList_def)

lemma oip_Update:
  "snd (Update L (v\<lparr>operationInProgress := b\<rparr>) msg) = snd (Update L v msg)"
proof (cases "IsVisible (dialog v)")
  case True
  then show ?thesis
    by (cases "Dialog_Update (dialog v) msg") (simp add: Update_def)
next
  case False
  then show ?thesis
    by (cases msg)
      (simp_all add: Update_def oip_key_focused oip_key_bindings oip_on_DialogMsg oip_others
        oip_updateFocusedPanel loadPackageInfo_def split: option.splits)
qed

lemma mc_Update_key: "mutating_calls (snd (Update L v (KeyMsg k))) = []"
proof (cases "IsVisible (dialog v)")
  case True
  then show ?thesis by (simp add: mc_Update_dialog)
next
  case False
  then show ?thesis by (simp add: Update_def mc_key_focused mc_key_bindings)
qed

text \<open>
  C5, as the code has it. \<open>Update\<close> never reads the operation status: the command it returns
  for a message is the same whether an operation is in progress or not, so the status
  suppresses nothing. What holds in either status is that a key press by itself never
  dispatches a mutating call; only a confirmed resolution of the dialog does.
\<close>

theorem dispatch_ignores_operation_status:
  "snd (Update L (v\<lparr>operationInProgress := b\<rparr>) msg) = snd (Update L v msg)
   \<and> mutating_calls (snd (Update L v (KeyMsg k))) = []"
  by (simp add: oip_Update mc_Update_key)

subsection \<open>Completion of a detail load\<close>

lemma filtered_three:
  "GetFilteredPackages (SetInstalled NewState [pk ''a'', pk ''b'', pk ''c''])
     = [pk ''a'', pk ''b'', pk ''c'']"
  by (simp add: GetFilteredPackages_def SetInstalled_def NewState_def keeps_def)

lemma threeInstalled_eval:
  "threeInstalled = (NewDashboardView (SetInstalled NewState [pk ''a'', pk ''b'', pk ''c'']))
      \<lparr>width := 80, height := 24\<rparr>"
  by (simp add: threeInstalled_def SetSize_def)

lemma down1:
  "Update sampleLib threeInstalled (KeyMsg ''down'')
   = (threeInstalled\<lparr>installedIndex := 1, selectedPkg := Some (pk ''b''),
        debounceID := 1, pendingPackage := Some (pk ''b'')\<rparr>, Tick (Some (pk ''b'')) 1)"
  by (simp add: threeInstalled_eval NewDashboardView_def Update_def IsVisible_def
      NewConfirmDialog_def NewDialog_def key_bindings_def key_down_def filtered_three
      getInstalledVisibleLines_def updateSelectedPackage_def loadSelectedPackageInfo_def
      debouncedLoadPackageInfo_def Let_def)

lemma trigger1:
  "Update sampleLib (threeInstalled\<lparr>installedIndex := 1, selectedPkg := Some (pk ''b''),
        debounceID := 1, pendingPackage := Some (pk ''b'')\<rparr>) (DebouncedLoadMsg (Some (pk ''b'')) 1)
   = (threeInstalled\<lparr>installedIndex := 1, selectedPkg := Some (pk ''b''),
        debounceID := 1, pendingPackage := Some (pk ''b''), loadingInfo := True\<rparr>,
      ClientInfo ''b'' False)"
  by (simp add: threeInstalled_eval NewDashboardView_def Update_def IsVisible_def
      NewConfirmDialog_def NewDialog_def loadPackageInfo_def pk_def TypeFormula_def TypeCask_def)

lemma down2:
  "Update sampleLib (threeInstalled\<lparr>installedIndex := 1, selectedPkg := Some (pk ''b''),
        debounceID := 1, pendingPackage := Some (pk ''b''), loadingInfo := True\<rparr>) (KeyMsg ''down'')
   = (threeInstalled\<lparr>installedIndex := 2, selectedPkg := Some (pk ''c''),
        debounceID := 2, pendingPackage := Some (pk ''c''), loadingInfo := True\<rparr>,
      Tick (Some (pk ''c'')) 2)"
  by (simp add: threeInstalled_eval NewDashboardView_def Update_def IsVisible_def
      NewConfirmDialog_def NewDialog_def key_bindings_def key_down_def filtered_three
      getInstalledVisibleLines_def updateSelectedPackage_def loadSelectedPackageInfo_def
      debouncedLoadPackageInfo_def Let_def)

lemma staleView_eval:
  "staleView = threeInstalled\<lparr>installedIndex := 2, selectedPkg := Some (pk ''c''),
        debounceID := 2, pendingPackage := Some (pk ''c''), loadingInfo := True\<rparr>"
  by (simp add: staleView_def down1 trigger1 down2)

lemma staleView_hidden: "\<not> IsVisible (dialog staleView)"
  by (simp add: staleView_eval threeInstalled_eval NewDashboardView_def IsVisible_def
      NewConfirmDialog_def NewDialog_def)

text \<open>
  C2 as stated fails. With three installed packages, \<open>down\<close> selects \<open>b\<close> under token 1
  and its trigger issues the detail load of \<open>b\<close>; a second \<open>down\<close> selects \<open>c\<close> under
  token 2. The completion of the load of \<open>b\<close>, requested under token 1, then arrives while
  the current token is 2, and the displayed detail changes from none to the detail of \<open>b\<close>.
\<close>

theorem stale_detail_applied_counterexample:
  "snd (Update sampleLib threeInstalled (KeyMsg ''down'')) = Tick (Some (pk ''b'')) 1
   \<and> snd (Update sampleLib (run sampleLib threeInstalled [KeyMsg ''down''])
            (DebouncedLoadMsg (Some (pk ''b'')) 1)) = ClientInfo ''b'' False
   \<and> debounceID staleView = 2
   \<and> selectedPkg staleView = Some (pk ''c'')
   \<and> packageInfo staleView = None
   \<and> packageInfo (fst (Update sampleLib staleView (PackageInfoLoadedMsg (Some info_b))))
       = Some info_b"
proof -
  have "packageInfo (fst (Update sampleLib staleView (PackageInfoLoadedMsg (Some info_b))))
       = Some info_b"
    using staleView_hidden by (simp add: Update_def)
  moreover have "debounceID staleView = 2" "selectedPkg staleView = Some (pk ''c'')"
    "packageInfo staleView = None"
    by (simp_all add: staleView_eval threeInstalled_eval NewDashboardView_def)
  ultimately show ?thesis by (simp add: down1 trigger1)
qed

text \<open>
  C2, as the code has it. \<open>PackageInfoLoadedMsg\<close> carries the detail and no token: processed
  while no dialog is visible, it always replaces the displayed detail with the carried one
  (and clears \<open>loadingInfo\<close> and the dependency scroll), whatever the debounce token is.
  The token guards the delayed trigger only: a \<open>DebouncedLoadMsg\<close> whose token is not the
  current one changes nothing and issues no request.
\<close>

theorem detail_completion_applied_unconditionally:
  assumes "\<not> IsVisible (dialog v)"
  shows "Update L v (PackageInfoLoadedMsg info)
           = (v\<lparr>packageInfo := info, loadingInfo := False, depScroll := 0\<rparr>, NoCmd)
       \<and> (i \<noteq> debounceID v \<longrightarrow> Update L v (DebouncedLoadMsg p i) = (v, NoCmd))"
  using assms by (simp add: Update_def split: option.splits)

text \<open>
  The theorem at the view of the counterexample: the detail of \<open>b\<close> is applied under token
  2, and the trigger with token 1 is discarded there.
\<close>

theorem detail_completion_applied_unconditionally_witness:
  "\<not> IsVisible (dialog staleView)
   \<and> Update sampleLib staleView (PackageInfoLoadedMsg (Some info_b))
       = (staleView\<lparr>packageInfo := Some info_b, loadingInfo := False, depScroll := 0\<rparr>, NoCmd)
   \<and> 1 \<noteq> debounceID staleView
   \<and> Update sampleLib staleView (DebouncedLoadMsg (Some (pk ''b'')) 1) = (staleView, NoCmd)"
proof -
  have ne: "1 \<noteq> debounceID staleView"
    by (simp add: staleView_eval threeInstalled_eval NewDashboardView_def)
  from detail_completion_applied_unconditionally [OF staleView_hidden, of sampleLib
      "Some info_b" 1 "Some (pk ''b'')"] staleView_hidden ne
  show ?thesis by blast
qed


subsection \<open>Failure completions\<close>




lemma keeps_messages:
  "keeps (SetError s e) = keeps s" "keeps (SetSuccess s m) = keeps s"
  by (rule ext, simp add: keeps_def SetError_def SetSuccess_def)+

lemma GetFilteredPackages_messages:
  "GetFilteredPackages (SetError s e) = GetFilteredPackages s"
  "GetFilteredPackages (SetSuccess s m) = GetFilteredPackages s"
  by (simp_all add: GetFilteredPackages_def keeps_messages) (simp_all add: SetError_def SetSuccess_def)





subsection \<open>Keys while the search input has the focus\<close>

lemmas model_defs = New_def Model_Update_def IsVisible_def NewConfirmDialog_def
  NewDialog_def SetSize_def NewDashboardView_def viewUpdate_def Update_def setStore_def
  SetInstalled_def NewState_def

lemma typing_eval:
  "typing = (New True True [])\<lparr>m_width := 80, m_height := 24, ready := True,
     home := (NewDashboardView NewState)\<lparr>width := 80, height := 24,
        focusedPanel := PanelSearch, searchInput := \<lparr>focus = True, inputValue = ''s''\<rparr>\<rparr>\<rparr>"
  by (simp add: typing_def model_defs key_bindings_def key_tab_def key_focused_def Focus_def
      Blur_def sampleLib_def Let_def)

text \<open>
  C9, on the code. The application model switches on its global key bindings before it
  passes a key to the dashboard, and does not ask whether the search input has the focus:
  with the input focused and \<open>s\<close> typed, the key \<open>q\<close> quits, \<open>2\<close> navigates to another
  view and \<open>?\<close> is dropped; none of them reaches the query buffer. (The dashboard
  itself routes every key but \<open>esc\<close>, \<open>enter\<close>, \<open>tab\<close> to the input, see
  \<open>focused_key_goes_to_input\<close>.)
\<close>

theorem typed_q_quits:
  "currentView typing = ViewHome
   \<and> focus (searchInput (home typing))
   \<and> inputValue (searchInput (home typing)) = ''s''
   \<and> Model_Update sampleLib typing (KeyMsg ''q'') = (typing, Quit)
   \<and> Model_Update sampleLib typing (KeyMsg ''2'') = (typing, Send (App_NavigateMsg ViewInstalled))
   \<and> Model_Update sampleLib typing (KeyMsg ''?'') = (typing, NoCmd)"
  by (simp add: typing_eval model_defs)

lemma focused_key_goes_to_input:
  assumes "\<not> IsVisible (dialog v)" "focus (searchInput v)"
    and "k \<noteq> ''esc''" "k \<noteq> ''enter''" "k \<noteq> ''tab''"
  shows "fst (Update L v (KeyMsg k))
           = v\<lparr>searchInput := fst (input_Update L (KeyMsg k) (searchInput v))\<rparr>"
    and "snd (Update L v (KeyMsg k)) = NoCmd \<or> snd (Update L v (KeyMsg k)) = InputCmd"
  using assms
  by (cases "input_Update L (KeyMsg k) (searchInput v)"; simp add: Update_def key_focused_def)+

subsection \<open>Selection and scroll offset\<close>

lemma resized_eval:
  "installedIndex (home resized) = 2 \<and> installedScroll (home resized) = 0
   \<and> height (home resized) = 7"
  by (simp add: resized_def model_defs on_PackagesLoadedMsg_def updateInstalledList_def
      GetFilteredPackages_def keeps_def sampleLib_def addLog_def addLog_lines_def
      loadPackageInfo_def key_bindings_def key_down_def getInstalledVisibleLines_def
      updateSelectedPackage_def loadSelectedPackageInfo_def debouncedLoadPackageInfo_def Let_def)

lemma depsScrolled_eval: "depScroll depsScrolled = 1 \<and> depIndex depsScrolled = 0"
  by (simp add: depsScrolled_def staleView_eval threeInstalled_eval NewDashboardView_def
      Update_def IsVisible_def NewConfirmDialog_def NewDialog_def key_bindings_def key_tab_def
      key_focused_def key_down_def Focus_def Blur_def getDependenciesVisibleLines_def
      sampleLib_def info_b_def Let_def)

text \<open>
  C6 as stated fails. After two \<open>down\<close> in a window of height 9 the selection is row 2
  with scroll offset 0; a resize to height 7 leaves both as they are, with one visible
  line, so the selection is outside the window. And in the Dependencies panel \<open>j\<close> moves
  the scroll offset to 1 while the index of the panel stays 0.
\<close>

theorem selection_invariant_counterexample:
  "installedIndex (home resized) = 2
   \<and> installedScroll (home resized) = 0
   \<and> getInstalledVisibleLines (home resized) = 1
   \<and> \<not> installedIndex (home resized)
         < installedScroll (home resized) + getInstalledVisibleLines (home resized)
   \<and> depIndex depsScrolled = 0
   \<and> depScroll depsScrolled = 1
   \<and> \<not> depScroll depsScrolled \<le> depIndex depsScrolled"
  by (simp add: resized_eval depsScrolled_eval getInstalledVisibleLines_def)

lemma sel_load:
  "selection_ok L (fst (loadSelectedPackageInfo (updateSelectedPackage v))) = selection_ok L v"
  "height (fst (loadSelectedPackageInfo (updateSelectedPackage v))) = height v"
  by (simp_all add: selection_ok_def loadSelectedPackageInfo_def updateSelectedPackage_def
      debouncedLoadPackageInfo_def getInstalledVisibleLines_def getSearchVisibleLines_def
      Let_def split: option.splits PanelType.splits)

lemma sel_key_up:
  assumes "selection_ok L v" "height v \<ge> 7"
  shows "selection_ok L (fst (key_up v))"
proof (cases "focusedPanel v")
  case PanelInstalled
  show ?thesis
  proof (cases "installedIndex v > 0")
    case True
    have "selection_ok L (if installedIndex v - 1 < installedScroll v
        then v\<lparr>installedIndex := installedIndex v - 1, installedScroll := installedIndex v - 1\<rparr>
        else v\<lparr>installedIndex := installedIndex v - 1\<rparr>)"
      using assms True
      by (auto simp: selection_ok_def getInstalledVisibleLines_def getSearchVisibleLines_def Let_def)
    with PanelInstalled True show ?thesis
      by (auto simp: key_up_def Let_def sel_load split: if_splits)
  next
    case False
    with PanelInstalled assms show ?thesis by (simp add: key_up_def)
  qed
next
  case PanelSearch
  show ?thesis
  proof (cases "searchIndex v > 0")
    case True
    have "selection_ok L (if searchIndex v - 1 < searchScroll v
        then v\<lparr>searchIndex := searchIndex v - 1, searchScroll := searchIndex v - 1\<rparr>
        else v\<lparr>searchIndex := searchIndex v - 1\<rparr>)"
      using assms True
      by (auto simp: selection_ok_def getInstalledVisibleLines_def getSearchVisibleLines_def Let_def)
    with PanelSearch True show ?thesis
      by (auto simp: key_up_def Let_def sel_load split: if_splits)
  next
    case False
    with PanelSearch assms show ?thesis by (simp add: key_up_def)
  qed
next
  case PanelDependencies
  with assms show ?thesis
    by (auto simp: key_up_def selection_ok_def getInstalledVisibleLines_def
        getSearchVisibleLines_def Let_def)
qed

lemma sel_key_down:
  assumes "selection_ok L v" "height v \<ge> 7"
  shows "selection_ok L (fst (key_down L v))"
proof (cases "focusedPanel v")
  case PanelInstalled
  show ?thesis
  proof (cases "installedIndex v < int (length (GetFilteredPackages (state v))) - 1")
    case True
    have "selection_ok L (if installedIndex v + 1 \<ge> installedScroll v + (height v - 1 - 5)
        then v\<lparr>installedIndex := installedIndex v + 1,
               installedScroll := installedIndex v + 1 - (height v - 1 - 5) + 1\<rparr>
        else v\<lparr>installedIndex := installedIndex v + 1\<rparr>)"
      using assms True
      by (auto simp: selection_ok_def getInstalledVisibleLines_def getSearchVisibleLines_def Let_def)
    with PanelInstalled True show ?thesis
      by (auto simp: key_down_def Let_def sel_load getInstalledVisibleLines_def split: if_splits)
  next
    case False
    with PanelInstalled assms show ?thesis by (simp add: key_down_def Let_def)
  qed
next
  case PanelSearch
  show ?thesis
  proof (cases "searchIndex v < int (length (searchResults v)) - 1")
    case True
    define vis where "vis = getSearchVisibleLines L v"
    have vis2: "vis \<ge> 2" by (simp add: vis_def getSearchVisibleLines_def Let_def)
    have visu: "getSearchVisibleLines L (v\<lparr>searchIndex := searchIndex v + 1\<rparr>) = vis"
      by (simp add: vis_def getSearchVisibleLines_def)
    have "selection_ok L (if searchIndex v + 1 \<ge> searchScroll v + vis
        then v\<lparr>searchIndex := searchIndex v + 1,
               searchScroll := searchIndex v + 1 - vis + 1\<rparr>
        else v\<lparr>searchIndex := searchIndex v + 1\<rparr>)"
      using assms True vis2 unfolding vis_def
      by (auto simp: selection_ok_def getInstalledVisibleLines_def getSearchVisibleLines_def Let_def)
    with PanelSearch True show ?thesis
      by (auto simp: key_down_def Let_def sel_load visu split: if_splits)
  next
    case False
    with PanelSearch assms show ?thesis by (simp add: key_down_def Let_def)
  qed
next
  case PanelDependencies
  with assms show ?thesis
    by (auto simp: key_down_def selection_ok_def getInstalledVisibleLines_def
        getSearchVisibleLines_def Let_def split: option.splits)
qed

lemmas sel_defs = selection_ok_def getInstalledVisibleLines_def getSearchVisibleLines_def

lemma sel_key_tab: "selection_ok L (fst (key_tab v)) = selection_ok L v"
  by (simp add: key_tab_def sel_defs Let_def split: PanelType.splits)

lemma sel_requestConfirm: "selection_ok L (requestConfirm v a p) = selection_ok L v"
  by (simp add: requestConfirm_def sel_defs)

lemma sel_updateFocusedPanel:
  "selection_ok L (fst (updateFocusedPanel L v msg)) = selection_ok L v"
  by (cases "list_Update L msg (installedList v)")
    (simp add: updateFocusedPanel_def sel_defs loadPackageInfo_def Let_def split: PanelType.splits)

lemma sel_key_focused: "selection_ok L (fst (key_focused L v k)) = selection_ok L v"
  by (cases "input_Update L (KeyMsg k) (searchInput v)")
    (simp add: key_focused_def sel_defs performSearch_def Let_def)

lemma sel_key_bindings:
  assumes "selection_ok L v" "height v \<ge> 7"
  shows "selection_ok L (fst (key_bindings L v k))"
  using assms
  by (simp add: key_bindings_def sel_key_up sel_key_down sel_key_tab sel_requestConfirm
      sel_updateFocusedPanel refresh_def Let_def split: option.splits)
    (simp add: sel_defs)

lemma sel_on_DialogMsg: "selection_ok L (fst (on_DialogMsg v b)) = selection_ok L v"
  by (simp add: on_DialogMsg_def installPackage_def uninstallPackage_def upgradePackage_def
      upgradeAll_def runDoctor_def runCleanup_def runAutoremove_def addLog_def sel_defs Let_def
      split: option.splits)

lemma sel_on_SearchResultsMsg:
  "selection_ok L v \<Longrightarrow> selection_ok L (fst (on_SearchResultsMsg v rs))"
  by (simp add: on_SearchResultsMsg_def loadPackageInfo_def sel_defs Let_def)

lemma sel_on_PackagesLoadedMsg:
  assumes "0 \<le> searchScroll v" "searchScroll v \<le> searchIndex v"
    "searchIndex v < searchScroll v + getSearchVisibleLines L v"
    "searchResults v \<noteq> [] \<longrightarrow> searchIndex v < int (length (searchResults v))"
    "0 \<le> depScroll v" "height v \<ge> 7"
  shows "selection_ok L (fst (on_PackagesLoadedMsg L v))"
  using assms
  by (auto simp: on_PackagesLoadedMsg_def loadPackageInfo_def updateInstalledList_def addLog_def
      sel_defs Let_def split: if_splits)

lemma sel_on_OutdatedLoadedMsg:
  "selection_ok L (fst (on_OutdatedLoadedMsg L v)) = selection_ok L v"
  by (simp add: on_OutdatedLoadedMsg_def updateInstalledList_def addLog_def sel_defs Let_def)

lemma sel_on_SuccessMsgView: "selection_ok L (fst (on_SuccessMsgView v m)) = selection_ok L v"
  by (simp add: on_SuccessMsgView_def addLog_def sel_defs Let_def GetFilteredPackages_messages)

lemma sel_on_ErrorMsgView: "selection_ok L (fst (on_ErrorMsgView v e)) = selection_ok L v"
  by (simp add: on_ErrorMsgView_def addLog_def sel_defs Let_def GetFilteredPackages_messages)

lemma doctor_lines_logs:
  "\<exists>ls'. foldl (\<lambda>w line. if not_blank L line then addLog w line else w) v ls = v\<lparr>logs := ls'\<rparr>"
proof (induction ls arbitrary: v)
  case Nil
  show ?case by (rule exI [of _ "logs v"]) simp
next
  case (Cons l ls)
  show ?case
  proof (cases "not_blank L l")
    case True
    from Cons [of "addLog v l"] obtain ls' where
      "foldl (\<lambda>w line. if not_blank L line then addLog w line else w) (addLog v l) ls
         = (addLog v l)\<lparr>logs := ls'\<rparr>" by blast
    with True show ?thesis by (auto simp: addLog_def)
  next
    case False
    with Cons [of v] show ?thesis by simp
  qed
qed

lemma sel_on_DoctorOutputMsg:
  "selection_ok L (fst (on_DoctorOutputMsg L v ls)) = selection_ok L v"
proof -
  obtain ls' where
    "foldl (\<lambda>w line. if not_blank L line then addLog w line else w)
       (v\<lparr>operationInProgress := False, operationMessage := []\<rparr>) ls
     = v\<lparr>operationInProgress := False, operationMessage := [], logs := ls'\<rparr>"
    using doctor_lines_logs [of L "v\<lparr>operationInProgress := False, operationMessage := []\<rparr>" ls]
    by auto
  then show ?thesis by (simp add: on_DoctorOutputMsg_def addLog_def sel_defs Let_def)
qed

lemma sel_Update:
  assumes "selection_ok L v" "height v \<ge> 7"
  shows "selection_ok L (fst (Update L v msg))"
proof (cases "IsVisible (dialog v)")
  case True
  with assms show ?thesis
    by (cases "Dialog_Update (dialog v) msg") (simp add: Update_def sel_defs)
next
  case False
  show ?thesis
  proof (cases msg)
    case (KeyMsg k)
    with False assms show ?thesis by (simp add: Update_def sel_key_focused sel_key_bindings)
  next
    case (DebouncedLoadMsg p i)
    with False assms show ?thesis
      by (simp add: Update_def loadPackageInfo_def sel_defs split: option.splits)
  next
    case (PackageInfoLoadedMsg info)
    with False assms show ?thesis by (simp add: Update_def sel_defs)
  next
    case (PackagesLoadedMsg ps)
    have "selection_ok L (fst (on_PackagesLoadedMsg L v))"
      using assms by (intro sel_on_PackagesLoadedMsg) (simp_all add: selection_ok_def)
    with False PackagesLoadedMsg show ?thesis by (simp add: Update_def)
  qed (use False assms in \<open>simp_all add: Update_def sel_on_DialogMsg sel_on_SearchResultsMsg
        sel_on_OutdatedLoadedMsg sel_on_SuccessMsgView sel_on_ErrorMsgView
        sel_on_DoctorOutputMsg sel_updateFocusedPanel\<close>)
qed

lemma height_load:
  "height (fst (loadSelectedPackageInfo (updateSelectedPackage v))) = height v"
  by (simp add: loadSelectedPackageInfo_def updateSelectedPackage_def
      debouncedLoadPackageInfo_def Let_def split: option.splits PanelType.splits)

lemma height_keys:
  "height (fst (key_up v)) = height v"
  "height (fst (key_down L v)) = height v"
  "height (fst (key_tab v)) = height v"
  "height (requestConfirm v a p) = height v"
  by (simp_all add: key_up_def key_down_def key_tab_def requestConfirm_def height_load Let_def
      split: PanelType.splits option.splits)

lemma height_updateFocusedPanel: "height (fst (updateFocusedPanel L v msg)) = height v"
  by (cases "list_Update L msg (installedList v)")
    (simp add: updateFocusedPanel_def loadPackageInfo_def Let_def split: PanelType.splits)

lemma height_key_focused: "height (fst (key_focused L v k)) = height v"
  by (cases "input_Update L (KeyMsg k) (searchInput v)")
    (simp add: key_focused_def performSearch_def Let_def)

lemma height_key_bindings: "height (fst (key_bindings L v k)) = height v"
  by (simp add: key_bindings_def height_keys height_updateFocusedPanel refresh_def Let_def
      split: option.splits)

lemma height_on_DialogMsg: "height (fst (on_DialogMsg v b)) = height v"
  by (simp add: on_DialogMsg_def installPackage_def uninstallPackage_def upgradePackage_def
      upgradeAll_def runDoctor_def runCleanup_def runAutoremove_def addLog_def Let_def
      split: option.splits)

lemma height_on_DoctorOutputMsg: "height (fst (on_DoctorOutputMsg L v ls)) = height v"
proof -
  obtain ls' where
    "foldl (\<lambda>w line. if not_blank L line then addLog w line else w)
       (v\<lparr>operationInProgress := False, operationMessage := []\<rparr>) ls
     = v\<lparr>operationInProgress := False, operationMessage := [], logs := ls'\<rparr>"
    using doctor_lines_logs [of L "v\<lparr>operationInProgress := False, operationMessage := []\<rparr>" ls]
    by auto
  then show ?thesis by (simp add: on_DoctorOutputMsg_def addLog_def Let_def)
qed

lemma height_others:
  "height (fst (on_SearchResultsMsg v rs)) = height v"
  "height (fst (on_PackagesLoadedMsg L v)) = height v"
  "height (fst (on_OutdatedLoadedMsg L v)) = height v"
  "height (fst (on_SuccessMsgView v m)) = height v"
  "height (fst (on_ErrorMsgView v e)) = height v"
  by (simp_all add: on_SearchResultsMsg_def on_PackagesLoadedMsg_def on_OutdatedLoadedMsg_def
      on_SuccessMsgView_def on_ErrorMsgView_def loadPackageInfo_def updateInstalledList_def
      addLog_def Let_def)

lemma height_Update: "height (fst (Update L v msg)) = height v"
proof (cases "IsVisible (dialog v)")
  case True
  then show ?thesis by (cases "Dialog_Update (dialog v) msg") (simp add: Update_def)
next
  case False
  then show ?thesis
    by (cases msg)
      (simp_all add: Update_def height_key_focused height_key_bindings height_on_DialogMsg
        height_on_DoctorOutputMsg height_others height_updateFocusedPanel loadPackageInfo_def
        split: option.splits)
qed

lemma sel_run:
  "selection_ok L v \<Longrightarrow> 7 \<le> height v \<Longrightarrow> selection_ok L (run L v msgs)"
proof (induction msgs arbitrary: v)
  case Nil
  then show ?case by simp
next
  case (Cons msg msgs)
  from Cons.prems have "selection_ok L (fst (Update L v msg))" by (rule sel_Update)
  moreover from Cons.prems have "7 \<le> height (fst (Update L v msg))" by (simp add: height_Update)
  ultimately show ?case using Cons.IH by simp
qed

lemma sel_new: "7 \<le> h \<Longrightarrow> selection_ok L (SetSize (NewDashboardView st) w h)"
  by (simp add: SetSize_def NewDashboardView_def sel_defs Let_def)

lemma sel_replaced:
  assumes "selection_ok L v" "7 \<le> height v" "\<not> IsVisible (dialog v)"
  shows "selection_ok L (fst (Update L (v\<lparr>state := SetInstalled (state v) packages\<rparr>)
            (PackagesLoadedMsg packages)))"
proof -
  have "selection_ok L (fst (on_PackagesLoadedMsg L (v\<lparr>state := SetInstalled (state v) packages\<rparr>)))"
    using assms(1,2) by (intro sel_on_PackagesLoadedMsg) (simp_all add: sel_defs)
  with assms(3) show ?thesis by (simp add: Update_def)
qed

text \<open>
  C6, as the code has it, for the Installed and the Search panel. From a dashboard that
  satisfies the invariant in a window of height 7 or more (one visible line at least),
  every run of \<open>Update\<close> keeps \<open>0 <= scrollOffset <= index < scrollOffset + visibleLines\<close>
  and \<open>index < itemCount\<close> for a non-empty list; so does the replacement of the installed
  list followed by its \<open>PackagesLoadedMsg\<close> when no dialog is visible; and a new
  dashboard of that height satisfies it. The scroll offset of the Dependencies panel
  stays non-negative and is independent of an index. A resize is not part of the run.
\<close>

theorem selection_invariant_preserved:
  assumes "selection_ok L v" and "7 \<le> height v"
  shows "selection_ok L (run L v msgs)
       \<and> (\<not> IsVisible (dialog v) \<longrightarrow>
            selection_ok L (fst (Update L (v\<lparr>state := SetInstalled (state v) packages\<rparr>)
                                   (PackagesLoadedMsg packages))))
       \<and> selection_ok L (SetSize (NewDashboardView st) w (height v))"
  using assms by (simp add: sel_run sel_replaced sel_new)

text \<open>
  The theorem at the dashboard with three packages in a window of height 24, for the run
  that selects row 2 and for the replacement of the list by one package.
\<close>

theorem selection_invariant_preserved_witness:
  "selection_ok sampleLib threeInstalled
   \<and> 7 \<le> height threeInstalled
   \<and> \<not> IsVisible (dialog threeInstalled)
   \<and> installedIndex staleView = 2
   \<and> selection_ok sampleLib staleView
   \<and> selection_ok sampleLib
        (fst (Update sampleLib (threeInstalled\<lparr>state := SetInstalled (state threeInstalled) [pk ''a'']\<rparr>)
                (PackagesLoadedMsg [pk ''a''])))"
proof -
  have a: "selection_ok sampleLib threeInstalled"
    by (simp add: threeInstalled_def sel_new)
  have b: "7 \<le> height threeInstalled" "\<not> IsVisible (dialog threeInstalled)"
    by (simp_all add: threeInstalled_eval NewDashboardView_def IsVisible_def
        NewConfirmDialog_def NewDialog_def)
  have c: "installedIndex staleView = 2" by (simp add: staleView_eval)
  from selection_invariant_preserved [OF a b(1), of
      "[KeyMsg ''down'', DebouncedLoadMsg (Some (pk ''b'')) 1, KeyMsg ''down'']" "[pk ''a'']"]
    a b c
  show ?thesis by (simp only: staleView_def [symmetric]) blast
qed

subsection \<open>Debounced detail loading\<close>























end
